theory Spec2Isabelle
  imports Complex_Main
begin

section \<open>Data model\<close>

text \<open>
  The source is \<^verbatim>\<open>moco/builder.py\<close>. Tensor entries are floating-point numbers in the
  source; here they are real numbers, so every statement below is about exact arithmetic
  (no rounding, no infinities, no NaN). A two-dimensional tensor is the list of its rows.
  A tensor with no rows carries no width in this representation; wherever the width of a
  tensor matters below, it has at least one row.
\<close>

datatype error =
    AssertionError
  | ZeroDivisionError
  | RuntimeError
  | IndexError
  | AttributeError
  | ValueError

type_synonym vec = "real list"
type_synonym matrix = "real list list"

definition nrows :: "matrix \<Rightarrow> nat" where
  "nrows M = length M"

definition ncols :: "matrix \<Rightarrow> nat" where
  "ncols M = (case M of [] \<Rightarrow> 0 | r # _ \<Rightarrow> length r)"

definition is_matrix :: "nat \<Rightarrow> nat \<Rightarrow> matrix \<Rightarrow> bool" where
  "is_matrix r c M \<longleftrightarrow> length M = r \<and> list_all (\<lambda>row. length row = c) M"

definition col :: "matrix \<Rightarrow> nat \<Rightarrow> vec" where
  "col M j = map (\<lambda>r. r ! j) M"

text \<open>\<^verbatim>\<open>M.T\<close>\<close>

definition transpose_m :: "matrix \<Rightarrow> matrix" where
  "transpose_m M = map (col M) [0..<ncols M]"

text \<open>
  The external backbone: its \<^verbatim>\<open>parameters()\<close>, one flattened tensor each, and everything
  else it holds (architecture, buffers), which this file never looks into.
\<close>

record 'a encoder =
  parameters :: "vec list"
  backbone :: 'a

text \<open>The fields \<^verbatim>\<open>self.K\<close>, \<^verbatim>\<open>self.m\<close>, \<^verbatim>\<open>self.T\<close>, the two encoders and the two buffers.\<close>

record 'a MoCo =
  self_K :: int
  self_m :: real
  self_T :: real
  encoder_q :: "'a encoder"
  encoder_k :: "'a encoder"
  queue :: matrix
  queue_ptr :: int

text \<open>
  A call that may raise, followed by the rest of the function: the exception of the call is
  the exception of the whole.
\<close>

definition or_raise :: "error + 'x \<Rightarrow> ('x \<Rightarrow> error + 'y) \<Rightarrow> error + 'y" where
  "or_raise r f = (case r of Inl e \<Rightarrow> Inl e | Inr v \<Rightarrow> f v)"

section \<open>The queue: \<^verbatim>\<open>_dequeue_and_enqueue_single_gpu\<close>\<close>

text \<open>
  A bound \<open>i\<close> of the slice \<^verbatim>\<open>a:b\<close> on a dimension of size \<open>n\<close>: negative bounds count from
  the end, and every bound is clamped into \<open>0..n\<close>.
\<close>

definition slice_index :: "nat \<Rightarrow> int \<Rightarrow> nat" where
  "slice_index n i = (if i < 0 then nat (max 0 (int n + i)) else min (nat i) n)"

text \<open>
  Broadcasting of the right-hand side of an assignment to the shape of its target: a
  dimension fits when it has the target's size or size 1.
\<close>

definition expand :: "nat \<Rightarrow> 'a list \<Rightarrow> 'a list" where
  "expand n xs = (if length xs = n then xs else replicate n (hd xs))"

definition expand_vec :: "nat \<Rightarrow> 'a list \<Rightarrow> 'a list option" where
  "expand_vec n xs = (if length xs = n \<or> length xs = 1 then Some (expand n xs) else None)"

definition expand_matrix :: "nat \<Rightarrow> nat \<Rightarrow> matrix \<Rightarrow> matrix option" where
  "expand_matrix r c M =
     (case expand_vec r M of
        None \<Rightarrow> None
      | Some rows \<Rightarrow>
          if list_all (\<lambda>row. expand_vec c row \<noteq> None) rows
          then Some (map (\<lambda>row. the (expand_vec c row)) rows)
          else None)"

text \<open>\<^verbatim>\<open>Q[:, a:b] = src\<close>: \<open>None\<close> when \<open>src\<close> does not broadcast to the slice.\<close>

definition assign_columns :: "matrix \<Rightarrow> int \<Rightarrow> int \<Rightarrow> matrix \<Rightarrow> matrix option" where
  "assign_columns Q a b src =
     (let lo = slice_index (ncols Q) a;
          hi = slice_index (ncols Q) b;
          w = hi - lo
      in case expand_matrix (nrows Q) w src of
           None \<Rightarrow> None
         | Some S \<Rightarrow> Some (map2 (\<lambda>row new. take lo row @ new @ drop (lo + w) row) Q S))"

text \<open>
  Lines 105 to 114. \<^verbatim>\<open>self.K % batch_size\<close> raises for an empty batch, the assertion fails when
  the remainder is not 0, the assignment raises when \<^verbatim>\<open>keys.T\<close> does not broadcast to the
  slice, and \<^verbatim>\<open>% self.K\<close> raises for \<open>K = 0\<close>.
\<close>

definition dequeue_and_enqueue_single_gpu :: "'a MoCo \<Rightarrow> matrix \<Rightarrow> error + 'a MoCo" where
  "dequeue_and_enqueue_single_gpu st keys =
     (let batch_size = int (nrows keys);
          ptr = queue_ptr st
      in if batch_size = 0 then Inl ZeroDivisionError
         else if self_K st mod batch_size \<noteq> 0 then Inl AssertionError
         else case assign_columns (queue st) ptr (ptr + batch_size) (transpose_m keys) of
                None \<Rightarrow> Inl RuntimeError
              | Some Q' \<Rightarrow>
                  if self_K st = 0 then Inl ZeroDivisionError
                  else Inr (st\<lparr>queue := Q', queue_ptr := (ptr + batch_size) mod self_K st\<rparr>))"

section \<open>The key encoder: \<^verbatim>\<open>_momentum_update_key_encoder\<close>\<close>

text \<open>
  \<^verbatim>\<open>param_k.data * self.m + param_q.data * (1. - self.m)\<close> on one pair of parameter tensors.
  Both encoders come from the same factory call and \<^verbatim>\<open>__init__\<close> changes both alike, so the
  tensors of a pair have the same shape. A parameter is kept here as its flattened entries,
  without its shape; two tensors of different sizes are reported as \<open>RuntimeError\<close>.
\<close>

definition momentum_param :: "real \<Rightarrow> vec \<Rightarrow> vec \<Rightarrow> error + vec" where
  "momentum_param mm param_q param_k =
     (if length param_q = length param_k
      then Inr (map2 (\<lambda>k q. k * mm + q * (1 - mm)) param_k param_q)
      else Inl RuntimeError)"

text \<open>The loop over \<^verbatim>\<open>zip(q.parameters(), k.parameters())\<close>; \<^verbatim>\<open>zip\<close> stops at the shorter list.\<close>

fun momentum_loop :: "real \<Rightarrow> vec list \<Rightarrow> vec list \<Rightarrow> error + vec list" where
  "momentum_loop mm (pq # qs) (pk # ks) =
     (case momentum_param mm pq pk of
        Inl e \<Rightarrow> Inl e
      | Inr pk' \<Rightarrow>
          (case momentum_loop mm qs ks of
             Inl e \<Rightarrow> Inl e
           | Inr ks' \<Rightarrow> Inr (pk' # ks')))"
| "momentum_loop mm [] ks = Inr ks"
| "momentum_loop mm qs [] = Inr []"

definition momentum_update_key_encoder :: "'a MoCo \<Rightarrow> error + 'a MoCo" where
  "momentum_update_key_encoder st =
     (case momentum_loop (self_m st) (parameters (encoder_q st)) (parameters (encoder_k st)) of
        Inl e \<Rightarrow> Inl e
      | Inr ks \<Rightarrow> Inr (st\<lparr>encoder_k := (encoder_k st)\<lparr>parameters := ks\<rparr>\<rparr>))"

section \<open>Batch shuffle\<close>

text \<open>
  \<^verbatim>\<open>torch.randperm(n)\<close> draws a permutation of \<open>0..n-1\<close>; the draw is an argument of the model.
  The transfer \<^verbatim>\<open>.cuda()\<close> has no counterpart here.
\<close>

definition is_randperm :: "nat \<Rightarrow> nat list \<Rightarrow> bool" where
  "is_randperm n idx \<longleftrightarrow> sort idx = [0..<n]"

definition argsort :: "nat list \<Rightarrow> nat list" where
  "argsort xs = map snd (sort_key fst (zip xs [0..<length xs]))"

text \<open>\<^verbatim>\<open>x[idx]\<close> along the first axis, with an index tensor.\<close>

definition index_select :: "'b list \<Rightarrow> nat list \<Rightarrow> error + 'b list" where
  "index_select x idx =
     (if list_all (\<lambda>i. i < length x) idx then Inr (map (nth x) idx) else Inl IndexError)"

definition batch_shuffle_single_gpu :: "nat list \<Rightarrow> 'b list \<Rightarrow> error + ('b list \<times> nat list)" where
  "batch_shuffle_single_gpu idx_shuffle x =
     (let idx_unshuffle = argsort idx_shuffle
      in case index_select x idx_shuffle of
           Inl e \<Rightarrow> Inl e
         | Inr y \<Rightarrow> Inr (y, idx_unshuffle))"

definition batch_unshuffle_single_gpu :: "'b list \<Rightarrow> nat list \<Rightarrow> error + 'b list" where
  "batch_unshuffle_single_gpu x idx_unshuffle = index_select x idx_unshuffle"

section \<open>Scoring: \<^verbatim>\<open>forward\<close>\<close>

definition l2_norm :: "vec \<Rightarrow> real" where
  "l2_norm v = sqrt (sum_list (map (\<lambda>x. x\<^sup>2) v))"

definition normalize_eps :: real where
  "normalize_eps = 1 / 10 ^ 12"

text \<open>\<^verbatim>\<open>nn.functional.normalize\<close> on one vector: \<open>v / max(\<parallel>v\<parallel>, eps)\<close>.\<close>

definition normalize_vec :: "vec \<Rightarrow> vec" where
  "normalize_vec v = map (\<lambda>x. x / max (l2_norm v) normalize_eps) v"

text \<open>\<^verbatim>\<open>normalize(M, dim=1)\<close>: every row.\<close>

definition normalize_rows :: "matrix \<Rightarrow> matrix" where
  "normalize_rows M = map normalize_vec M"

text \<open>\<^verbatim>\<open>normalize(M, dim=0)\<close>: every column.\<close>

definition normalize_cols :: "matrix \<Rightarrow> matrix" where
  "normalize_cols M =
     map (\<lambda>row. map (\<lambda>j. row ! j / max (l2_norm (col M j)) normalize_eps) [0..<length row]) M"

definition dot :: "vec \<Rightarrow> vec \<Rightarrow> real" where
  "dot u v = sum_list (map2 (*) u v)"

text \<open>The sizes of one einsum subscript in two operands must agree or be 1.\<close>

definition broadcast_size :: "nat \<Rightarrow> nat \<Rightarrow> nat option" where
  "broadcast_size a b =
     (if a = b then Some a else if a = 1 then Some b else if b = 1 then Some a else None)"

text \<open>\<^verbatim>\<open>torch.einsum('nc,nc->n', [a, b])\<close>\<close>

definition einsum_nc_nc_n :: "matrix \<Rightarrow> matrix \<Rightarrow> error + vec" where
  "einsum_nc_nc_n a b =
     (case broadcast_size (nrows a) (nrows b) of
        None \<Rightarrow> Inl RuntimeError
      | Some n \<Rightarrow>
          (case broadcast_size (ncols a) (ncols b) of
             None \<Rightarrow> Inl RuntimeError
           | Some c \<Rightarrow> Inr (map2 (\<lambda>u v. dot (expand c u) (expand c v)) (expand n a) (expand n b))))"

text \<open>\<^verbatim>\<open>torch.einsum('nc,ck->nk', [a, Q])\<close>\<close>

definition einsum_nc_ck_nk :: "matrix \<Rightarrow> matrix \<Rightarrow> error + matrix" where
  "einsum_nc_ck_nk a Q =
     (case broadcast_size (ncols a) (nrows Q) of
        None \<Rightarrow> Inl RuntimeError
      | Some c \<Rightarrow>
          Inr (map (\<lambda>u. map (\<lambda>j. dot (expand c u) (col (expand c Q) j)) [0..<ncols Q]) a))"

text \<open>\<^verbatim>\<open>torch.cat([l_pos.unsqueeze(-1), l_neg], dim=1)\<close>: the row counts must agree.\<close>

definition cat_pos_neg :: "vec \<Rightarrow> matrix \<Rightarrow> error + matrix" where
  "cat_pos_neg l_pos l_neg =
     (if length l_pos = nrows l_neg then Inr (map2 (#) l_pos l_neg) else Inl RuntimeError)"

text \<open>
  The encoders are external: \<open>encode\<close> runs one on a batch (a list of samples) and returns
  the features with the encoder's new internal state, or raises. The permutation drawn by
  \<^verbatim>\<open>randperm\<close> is the argument \<open>idx_shuffle\<close>.
\<close>

text \<open>Lines 148 to 150: the query features.\<close>

definition query_features ::
  "('a encoder \<Rightarrow> 'b list \<Rightarrow> error + (matrix \<times> 'a)) \<Rightarrow> 'a MoCo \<Rightarrow> 'b list \<Rightarrow>
     error + (matrix \<times> 'a MoCo)" where
  "query_features encode st im_q =
     or_raise (encode (encoder_q st) im_q) (\<lambda>(q0, bq).
     Inr (normalize_rows q0, st\<lparr>encoder_q := (encoder_q st)\<lparr>backbone := bq\<rparr>\<rparr>))"

text \<open>Lines 152 to 163, the block under \<^verbatim>\<open>torch.no_grad()\<close>: the key features.\<close>

definition key_features ::
  "('a encoder \<Rightarrow> 'b list \<Rightarrow> error + (matrix \<times> 'a)) \<Rightarrow> nat list \<Rightarrow> 'a MoCo \<Rightarrow> 'b list \<Rightarrow>
     error + (matrix \<times> 'a MoCo)" where
  "key_features encode idx_shuffle st im_k =
     or_raise (momentum_update_key_encoder st) (\<lambda>st2.
     or_raise (batch_shuffle_single_gpu idx_shuffle im_k) (\<lambda>(im_k', idx_unshuffle).
     or_raise (encode (encoder_k st2) im_k') (\<lambda>(k0, bk).
     or_raise (batch_unshuffle_single_gpu (normalize_rows k0) idx_unshuffle) (\<lambda>k.
     Inr (k, st2\<lparr>encoder_k := (encoder_k st2)\<lparr>backbone := bk\<rparr>\<rparr>)))))"

text \<open>
  Lines 165 to 179: logits and labels from the features, the queue and the temperature. The
  copy of the queue that is scored (\<^verbatim>\<open>clone().detach()\<close>) is the value \<open>Q\<close>; gradients and the
  transfer \<^verbatim>\<open>.cuda()\<close> of the labels have no counterpart here.
\<close>

definition compute_logits :: "matrix \<Rightarrow> matrix \<Rightarrow> matrix \<Rightarrow> real \<Rightarrow> error + (matrix \<times> int list)" where
  "compute_logits q k Q T =
     or_raise (einsum_nc_nc_n q k) (\<lambda>l_pos.
     or_raise (einsum_nc_ck_nk q Q) (\<lambda>l_neg.
     or_raise (cat_pos_neg l_pos l_neg) (\<lambda>logits0.
     let logits = map (map (\<lambda>x. x / T)) logits0;
         labels = replicate (nrows logits) 0
     in Inr (logits, labels))))"

text \<open>\<^verbatim>\<open>forward(im_q, im_k)\<close>: the result is \<open>(logits, labels)\<close> and the model after the call.\<close>

definition forward ::
  "('a encoder \<Rightarrow> 'b list \<Rightarrow> error + (matrix \<times> 'a)) \<Rightarrow> nat list \<Rightarrow> 'a MoCo \<Rightarrow>
     'b list \<Rightarrow> 'b list \<Rightarrow> error + (matrix \<times> int list \<times> 'a MoCo)" where
  "forward encode idx_shuffle st im_q im_k =
     or_raise (query_features encode st im_q) (\<lambda>(q, st1).
     or_raise (key_features encode idx_shuffle st1 im_k) (\<lambda>(k, st3).
     or_raise (compute_logits q k (queue st3) (self_T st3)) (\<lambda>(logits, labels).
     or_raise (dequeue_and_enqueue_single_gpu st3 k) (\<lambda>st'.
     Inr (logits, labels, st')))))"

section \<open>\<^verbatim>\<open>SplitBatchNorm\<close>\<close>

text \<open>
  A tensor of any rank: its shape and its entries in row-major order. The layer's input has
  this form, since \<^verbatim>\<open>view\<close> regroups the entries by their position in that order.
\<close>

record tensor =
  dims :: "nat list"
  data :: "real list"

text \<open>
  The attributes of \<^verbatim>\<open>nn.BatchNorm2d\<close> that \<^verbatim>\<open>forward\<close> reads, and \<^verbatim>\<open>num_splits\<close>. The affine
  parameters are \<open>None\<close> when the layer was built with \<^verbatim>\<open>affine=False\<close>, the running statistics
  when it was built with \<^verbatim>\<open>track_running_stats=False\<close>.
\<close>

record SplitBatchNorm =
  num_features :: nat
  eps :: real
  momentum :: real
  weight :: "vec option"
  bias :: "vec option"
  running_mean :: "vec option"
  running_var :: "vec option"
  track_running_stats :: bool
  training :: bool
  num_splits :: nat

text \<open>The keyword arguments a caller may give to the layer's constructor.\<close>

record bn_kwargs =
  kw_num_splits :: "nat option"
  kw_eps :: "real option"
  kw_momentum :: "real option"
  kw_affine :: "bool option"
  kw_track_running_stats :: "bool option"

definition keyword :: "'x \<Rightarrow> 'x option \<Rightarrow> 'x" where
  "keyword dflt v = (case v of None \<Rightarrow> dflt | Some x \<Rightarrow> x)"

text \<open>
  \<^verbatim>\<open>SplitBatchNorm.__init__(num_features, num_splits, **kw)\<close>: the parent's constructor with its
  defaults, then \<^verbatim>\<open>self.num_splits = num_splits\<close>. A new module is in training mode.
\<close>

definition SplitBatchNorm_init :: "nat \<Rightarrow> nat \<Rightarrow> bn_kwargs \<Rightarrow> SplitBatchNorm" where
  "SplitBatchNorm_init nf ns kw =
     (let affine = keyword True (kw_affine kw);
          track = keyword True (kw_track_running_stats kw)
      in \<lparr>num_features = nf,
          eps = keyword (1 / 10 ^ 5) (kw_eps kw),
          momentum = keyword (1 / 10) (kw_momentum kw),
          weight = (if affine then Some (replicate nf 1) else None),
          bias = (if affine then Some (replicate nf 0) else None),
          running_mean = (if track then Some (replicate nf 0) else None),
          running_var = (if track then Some (replicate nf 1) else None),
          track_running_stats = track,
          training = True,
          num_splits = ns\<rparr>)"

text \<open>The channel (second axis) of the entry at flat position \<open>i\<close>.\<close>

definition chan_index :: "nat list \<Rightarrow> nat \<Rightarrow> nat" where
  "chan_index ds i = (case ds of n # c # sp \<Rightarrow> (i div prod_list sp) mod c | _ \<Rightarrow> 0)"

definition chan_values :: "tensor \<Rightarrow> nat \<Rightarrow> real list" where
  "chan_values x ch =
     map (\<lambda>i. data x ! i) (filter (\<lambda>i. chan_index (dims x) i = ch) [0..<length (data x)])"

definition mean :: "real list \<Rightarrow> real" where
  "mean vs = sum_list vs / real (length vs)"

definition var_biased :: "real list \<Rightarrow> real" where
  "var_biased vs = sum_list (map (\<lambda>v. (v - mean vs)\<^sup>2) vs) / real (length vs)"

definition var_unbiased :: "real list \<Rightarrow> real" where
  "var_unbiased vs = sum_list (map (\<lambda>v. (v - mean vs)\<^sup>2) vs) / (real (length vs) - 1)"

definition fits_channels :: "nat \<Rightarrow> vec option \<Rightarrow> bool" where
  "fits_channels c v = (case v of None \<Rightarrow> True | Some xs \<Rightarrow> length xs = c)"

definition affine_at :: "real \<Rightarrow> vec option \<Rightarrow> nat \<Rightarrow> real" where
  "affine_at dflt v ch = (case v of None \<Rightarrow> dflt | Some xs \<Rightarrow> xs ! ch)"

text \<open>
  \<^verbatim>\<open>nn.functional.batch_norm(input, running_mean, running_var, weight, bias, training,
  momentum, eps)\<close>. In training mode torch updates the two running tensors in place, so the
  result carries them as they are after the call. An empty input is returned as it is, before
  any check of the other arguments.
\<close>

definition batch_norm ::
  "tensor \<Rightarrow> vec option \<Rightarrow> vec option \<Rightarrow> vec option \<Rightarrow> vec option \<Rightarrow> bool \<Rightarrow> real \<Rightarrow> real \<Rightarrow>
     error + (tensor \<times> vec option \<times> vec option)" where
  "batch_norm x rm rv w b train mom ep =
     (case dims x of
        n # c # sp \<Rightarrow>
          if train \<and> n * prod_list sp = 1 then Inl ValueError
          else if data x = [] then
            (if w = Some [] \<or> b = Some [] then Inl IndexError else Inr (x, rm, rv))
          else if \<not> (fits_channels c rm \<and> fits_channels c rv \<and> fits_channels c w \<and> fits_channels c b)
            then Inl RuntimeError
          else if train then
            Inr (x\<lparr>data :=
                     map (\<lambda>i. let ch = chan_index (dims x) i; vs = chan_values x ch
                              in (data x ! i - mean vs) / sqrt (var_biased vs + ep)
                                   * affine_at 1 w ch + affine_at 0 b ch)
                       [0..<length (data x)]\<rparr>,
                 map_option (\<lambda>r. map (\<lambda>ch. (1 - mom) * r ! ch + mom * mean (chan_values x ch)) [0..<c]) rm,
                 map_option (\<lambda>r. map (\<lambda>ch. (1 - mom) * r ! ch + mom * var_unbiased (chan_values x ch)) [0..<c]) rv)
          else
            (case (rm, rv) of
               (Some rmean, Some rvar) \<Rightarrow>
                 Inr (x\<lparr>data :=
                          map (\<lambda>i. let ch = chan_index (dims x) i
                                   in (data x ! i - rmean ! ch) / sqrt (rvar ! ch + ep)
                                        * affine_at 1 w ch + affine_at 0 b ch)
                            [0..<length (data x)]\<rparr>,
                      rm, rv)
             | _ \<Rightarrow> Inl RuntimeError)
      | _ \<Rightarrow> Inl RuntimeError)"

text \<open>\<^verbatim>\<open>v.repeat(s)\<close> on an attribute that may be \<open>None\<close>.\<close>

definition repeat_attr :: "vec option \<Rightarrow> nat \<Rightarrow> error + vec" where
  "repeat_attr v s = (case v of None \<Rightarrow> Inl AttributeError | Some xs \<Rightarrow> Inr (concat (replicate s xs)))"

text \<open>\<^verbatim>\<open>x.view(-1, d1, d2, ...)\<close> and \<^verbatim>\<open>x.view(d0, d1, ...)\<close>.\<close>

definition view_infer :: "tensor \<Rightarrow> nat list \<Rightarrow> error + tensor" where
  "view_infer x rest =
     (let p = prod_list rest
      in if p = 0 \<or> length (data x) mod p \<noteq> 0 then Inl RuntimeError
         else Inr \<lparr>dims = (length (data x) div p) # rest, data = data x\<rparr>)"

definition view :: "tensor \<Rightarrow> nat list \<Rightarrow> error + tensor" where
  "view x ds = (if prod_list ds = length (data x) then Inr \<lparr>dims = ds, data = data x\<rparr> else Inl RuntimeError)"

text \<open>\<^verbatim>\<open>v.view(s, c).mean(dim=0)\<close>\<close>

definition view_mean_dim0 :: "nat \<Rightarrow> nat \<Rightarrow> vec \<Rightarrow> error + vec" where
  "view_mean_dim0 s c v =
     (if length v = s * c
      then Inr (map (\<lambda>ch. sum_list (map (\<lambda>k. v ! (k * c + ch)) [0..<s]) / real s) [0..<c])
      else Inl RuntimeError)"

text \<open>\<^verbatim>\<open>buf.data.copy_(src)\<close> on a one-dimensional buffer.\<close>

definition copy_into :: "vec \<Rightarrow> vec \<Rightarrow> error + vec" where
  "copy_into buf src = (case expand_vec (length buf) src of None \<Rightarrow> Inl RuntimeError | Some xs \<Rightarrow> Inr xs)"

definition SplitBatchNorm_forward :: "SplitBatchNorm \<Rightarrow> tensor \<Rightarrow> error + (tensor \<times> SplitBatchNorm)" where
  "SplitBatchNorm_forward self input =
     (case dims input of
        [N, C, H, W] \<Rightarrow>
          if training self \<or> \<not> track_running_stats self then
            or_raise (repeat_attr (running_mean self) (num_splits self)) (\<lambda>running_mean_split.
            or_raise (repeat_attr (running_var self) (num_splits self)) (\<lambda>running_var_split.
            or_raise (view_infer input [C * num_splits self, H, W]) (\<lambda>x.
            or_raise (repeat_attr (weight self) (num_splits self)) (\<lambda>w.
            or_raise (repeat_attr (bias self) (num_splits self)) (\<lambda>b.
            or_raise (batch_norm x (Some running_mean_split) (Some running_var_split) (Some w) (Some b)
                        True (momentum self) (eps self)) (\<lambda>(y, rms, rvs).
            or_raise (view y [N, C, H, W]) (\<lambda>outcome.
            or_raise (view_mean_dim0 (num_splits self) C (the rms)) (\<lambda>new_mean.
            or_raise (copy_into (the (running_mean self)) new_mean) (\<lambda>rm'.
            or_raise (view_mean_dim0 (num_splits self) C (the rvs)) (\<lambda>new_var.
            or_raise (copy_into (the (running_var self)) new_var) (\<lambda>rv'.
            Inr (outcome, self\<lparr>running_mean := Some rm', running_var := Some rv'\<rparr>))))))))))))
          else
            or_raise (batch_norm input (running_mean self) (running_var self) (weight self) (bias self)
                        False (momentum self) (eps self)) (\<lambda>(y, rm, rv).
            Inr (y, self\<lparr>running_mean := rm, running_var := rv\<rparr>))
      | _ \<Rightarrow> Inl ValueError)"

section \<open>Construction: \<^verbatim>\<open>MoCo.__init__\<close>\<close>

text \<open>
  \<^verbatim>\<open>partial(SplitBatchNorm, num_splits=16)\<close>: a keyword given at the call replaces the one
  fixed by \<^verbatim>\<open>partial\<close>.
\<close>

definition norm_layer :: "nat \<Rightarrow> bn_kwargs \<Rightarrow> SplitBatchNorm" where
  "norm_layer nf kw = SplitBatchNorm_init nf (keyword 16 (kw_num_splits kw)) kw"

text \<open>
  What \<^verbatim>\<open>__init__\<close> asks of the external backbone. Every constructor draws its initial weights
  from the random generator, whose state is the first argument:
  \<^item> \<open>base_encoder g dim nl\<close> is \<^verbatim>\<open>base_encoder(num_classes=dim, norm_layer=nl)\<close>;
  \<^item> \<open>set_conv1 g c e\<close> is \<^verbatim>\<open>e.conv1 = Conv2d(c, 64, kernel_size=(7,7), stride=(2,2),
    padding=(3,3), bias=False)\<close>;
  \<^item> \<open>fc_in_features e\<close> is \<^verbatim>\<open>e.fc.weight.shape[1]\<close>;
  \<^item> \<open>wrap_fc g d e\<close> is \<^verbatim>\<open>e.fc = Sequential(Linear(d, d), ReLU(), e.fc)\<close>.
\<close>

record ('a, 'g) backbone_api =
  base_encoder :: "'g \<Rightarrow> nat \<Rightarrow> (nat \<Rightarrow> bn_kwargs \<Rightarrow> SplitBatchNorm) \<Rightarrow> error + 'a encoder"
  set_conv1 :: "'g \<Rightarrow> nat \<Rightarrow> 'a encoder \<Rightarrow> 'a encoder"
  fc_in_features :: "'a encoder \<Rightarrow> error + nat"
  wrap_fc :: "'g \<Rightarrow> nat \<Rightarrow> 'a encoder \<Rightarrow> error + 'a encoder"

text \<open>The loop \<^verbatim>\<open>param_k.data.copy_(param_q.data)\<close> over the zipped parameters.\<close>

fun copy_loop :: "vec list \<Rightarrow> vec list \<Rightarrow> error + vec list" where
  "copy_loop (pq # qs) (pk # ks) =
     (if length pq = length pk
      then or_raise (copy_loop qs ks) (\<lambda>ks'. Inr (pq # ks'))
      else Inl RuntimeError)"
| "copy_loop [] ks = Inr ks"
| "copy_loop qs [] = Inr []"

text \<open>\<^verbatim>\<open>torch.randn(d, k)\<close>: the draws are the entries of the table \<open>noise\<close>.\<close>

definition randn :: "(nat \<Rightarrow> nat \<Rightarrow> real) \<Rightarrow> nat \<Rightarrow> nat \<Rightarrow> matrix" where
  "randn noise d k = map (\<lambda>i. map (\<lambda>j. noise i j) [0..<k]) [0..<d]"

definition conv1_channels :: "string \<Rightarrow> nat option" where
  "conv1_channels bands =
     (if bands = ''B12'' then Some 12
      else if bands = ''B13'' then Some 13
      else if bands = ''B15'' then Some 15
      else if bands = ''B2'' then Some 2
      else None)"

definition MoCo_init ::
  "('a, 'g) backbone_api \<Rightarrow> 'g \<Rightarrow> 'g \<Rightarrow> (nat \<Rightarrow> nat \<Rightarrow> real) \<Rightarrow>
     nat \<Rightarrow> int \<Rightarrow> real \<Rightarrow> real \<Rightarrow> bool \<Rightarrow> string \<Rightarrow> error + 'a MoCo" where
  "MoCo_init api gq gk noise dim' K mm T mlp bands =
     or_raise (base_encoder api gq dim' norm_layer) (\<lambda>eq0.
     or_raise (base_encoder api gk dim' norm_layer) (\<lambda>ek0.
     let eq1 = (case conv1_channels bands of None \<Rightarrow> eq0 | Some c \<Rightarrow> set_conv1 api gq c eq0);
         ek1 = (case conv1_channels bands of None \<Rightarrow> ek0 | Some c \<Rightarrow> set_conv1 api gk c ek0)
     in
     or_raise (if mlp
               then or_raise (fc_in_features api eq1) (\<lambda>dim_mlp.
                    or_raise (wrap_fc api gq dim_mlp eq1) (\<lambda>eq2.
                    or_raise (wrap_fc api gk dim_mlp ek1) (\<lambda>ek2. Inr (eq2, ek2))))
               else Inr (eq1, ek1)) (\<lambda>(eq2, ek2).
     or_raise (copy_loop (parameters eq2) (parameters ek2)) (\<lambda>pk.
     if K < 0 then Inl RuntimeError
     else Inr \<lparr>self_K = K, self_m = mm, self_T = T,
               encoder_q = eq2, encoder_k = ek2\<lparr>parameters := pk\<rparr>,
               queue = normalize_cols (randn noise dim' (nat K)),
               queue_ptr = 0\<rparr>))))"

section \<open>Concrete models and inputs\<close>

text \<open>
  A model with feature dimension 2 and a queue of two unit columns. A sample is a pair of
  numbers, and the encoder returns the two numbers as the features of the sample, whatever
  the parameters are.
\<close>

definition pair_encode :: "unit encoder \<Rightarrow> (real \<times> real) list \<Rightarrow> error + (matrix \<times> unit)" where
  "pair_encode e xs = Inr (map (\<lambda>(a, b). [a, b]) xs, ())"

definition small_model :: "unit MoCo" where
  "small_model =
     \<lparr>self_K = 2, self_m = 1 / 2, self_T = 2,
      encoder_q = \<lparr>parameters = [[1, 2]], backbone = ()\<rparr>,
      encoder_k = \<lparr>parameters = [[3, 6]], backbone = ()\<rparr>,
      queue = [[1, 0], [0, 1]], queue_ptr = 0\<rparr>"

text \<open>A queue of capacity 4 with the cursor at 2, and one with the cursor at 3.\<close>

definition ring_model :: "int \<Rightarrow> unit MoCo" where
  "ring_model ptr =
     \<lparr>self_K = 4, self_m = 0, self_T = 1,
      encoder_q = \<lparr>parameters = [], backbone = ()\<rparr>,
      encoder_k = \<lparr>parameters = [], backbone = ()\<rparr>,
      queue = [[1, 0, 1, 0], [0, 1, 0, 1]], queue_ptr = ptr\<rparr>"

text \<open>The scenario of capacity 100 and batch size 32, with feature dimension 1.\<close>

definition model_100 :: "unit MoCo" where
  "model_100 =
     \<lparr>self_K = 100, self_m = 0, self_T = 1,
      encoder_q = \<lparr>parameters = [], backbone = ()\<rparr>,
      encoder_k = \<lparr>parameters = [], backbone = ()\<rparr>,
      queue = [replicate 100 1], queue_ptr = 0\<rparr>"

definition keys_32 :: matrix where
  "keys_32 = replicate 32 [1]"

text \<open>Two query samples, two key samples, and the model after one forward call on them.\<close>

definition im_q_2 :: "(real \<times> real) list" where
  "im_q_2 = [(0, 2), (0, 2)]"

definition im_k_2 :: "(real \<times> real) list" where
  "im_k_2 = [(0, 2), (0, - 2)]"

definition small_model_keys :: "unit MoCo" where
  "small_model_keys = small_model\<lparr>encoder_k := \<lparr>parameters = [[2, 4]], backbone = ()\<rparr>\<rparr>"

definition small_model_after :: "unit MoCo" where
  "small_model_after = small_model_keys\<lparr>queue := [[0, 0], [1, - 1]], queue_ptr := 0\<rparr>"

text \<open>
  A backbone with one parameter tensor, and two tables of draws for \<^verbatim>\<open>randn\<close>: one whose
  columns have norm 2, one that is zero everywhere.
\<close>

definition plain_api :: "(unit, unit) backbone_api" where
  "plain_api =
     \<lparr>base_encoder = (\<lambda>g d nl. Inr \<lparr>parameters = [[1, 2]], backbone = ()\<rparr>),
      set_conv1 = (\<lambda>g c e. e),
      fc_in_features = (\<lambda>e. Inr 2),
      wrap_fc = (\<lambda>g d e. Inr e)\<rparr>"

definition axis_noise :: "nat \<Rightarrow> nat \<Rightarrow> real" where
  "axis_noise i j = (if i = j then 2 else 0)"

definition zero_noise :: "nat \<Rightarrow> nat \<Rightarrow> real" where
  "zero_noise i j = 0"

definition init_model :: "unit MoCo" where
  "init_model = small_model\<lparr>encoder_k := encoder_q small_model\<rparr>"

definition zero_model :: "unit MoCo" where
  "zero_model =
     \<lparr>self_K = 1, self_m = 1 / 2, self_T = 2,
      encoder_q = \<lparr>parameters = [[1, 2]], backbone = ()\<rparr>,
      encoder_k = \<lparr>parameters = [[1, 2]], backbone = ()\<rparr>,
      queue = [[0]], queue_ptr = 0\<rparr>"

text \<open>The model after one forward call on \<open>init_model\<close> with the two samples above.\<close>

definition init_model_after :: "unit MoCo" where
  "init_model_after = init_model\<lparr>queue := [[0, 0], [1, - 1]], queue_ptr := 0\<rparr>"

text \<open>
  No keyword given. Two backbones that consist of their normalization layers, with a new
  first convolution and a wrapped head visible in the parameters only: the factory of the
  first builds its layers by calling the constructor it receives with the number of features
  alone, the factory of the second passes \<^verbatim>\<open>num_splits=4\<close> as well. And the model that
  construction gives with the first.
\<close>

definition no_kwargs :: bn_kwargs where
  "no_kwargs =
     \<lparr>kw_num_splits = None, kw_eps = None, kw_momentum = None, kw_affine = None,
      kw_track_running_stats = None\<rparr>"

definition layers_api :: "bn_kwargs \<Rightarrow> (SplitBatchNorm list, unit) backbone_api" where
  "layers_api kw =
     \<lparr>base_encoder = (\<lambda>g d nl. Inr \<lparr>parameters = [[1, 2]], backbone = [nl 64 kw, nl 128 kw]\<rparr>),
      set_conv1 = (\<lambda>g c e. e\<lparr>parameters := [[real c, 0]]\<rparr>),
      fc_in_features = (\<lambda>e. Inr 2),
      wrap_fc = (\<lambda>g d e. Inr (e\<lparr>parameters := parameters e @ [[real d]]\<rparr>))\<rparr>"

definition probe_api :: "(SplitBatchNorm list, unit) backbone_api" where
  "probe_api = layers_api no_kwargs"

definition override_api :: "(SplitBatchNorm list, unit) backbone_api" where
  "override_api = layers_api (no_kwargs\<lparr>kw_num_splits := Some 4\<rparr>)"

definition probe_model :: "SplitBatchNorm list MoCo" where
  "probe_model =
     \<lparr>self_K = 2, self_m = 1 / 2, self_T = 2,
      encoder_q = \<lparr>parameters = [[13, 0], [2]],
                   backbone = [norm_layer 64 no_kwargs, norm_layer 128 no_kwargs]\<rparr>,
      encoder_k = \<lparr>parameters = [[13, 0], [2]],
                   backbone = [norm_layer 64 no_kwargs, norm_layer 128 no_kwargs]\<rparr>,
      queue = [[1, 0], [0, 1]], queue_ptr = 0\<rparr>"

text \<open>
  Three layers with one channel, in inference mode: one built with
  \<^verbatim>\<open>track_running_stats=False\<close>; one whose tracking was switched off after construction; one
  with tracking on, two splits and running statistics 1 and 4. And a batch of two samples of
  one entry each.
\<close>

definition bn_untracked :: SplitBatchNorm where
  "bn_untracked =
     (SplitBatchNorm_init 1 1 (no_kwargs\<lparr>kw_track_running_stats := Some False\<rparr>))\<lparr>training := False\<rparr>"

definition bn_switched_off :: SplitBatchNorm where
  "bn_switched_off =
     (SplitBatchNorm_init 1 1 (no_kwargs\<lparr>kw_eps := Some 0\<rparr>))
       \<lparr>track_running_stats := False, training := False\<rparr>"

definition bn_eval :: SplitBatchNorm where
  "bn_eval =
     (SplitBatchNorm_init 1 2 (no_kwargs\<lparr>kw_eps := Some 0\<rparr>))
       \<lparr>running_mean := Some [1], running_var := Some [4], training := False\<rparr>"

definition two_samples :: tensor where
  "two_samples = \<lparr>dims = [2, 1, 1, 1], data = [1, 3]\<rparr>"

section \<open>Shapes\<close>

lemma ncols_is_matrix: "is_matrix r c M \<Longrightarrow> 0 < r \<Longrightarrow> ncols M = c"
  by (cases M) (auto simp: is_matrix_def ncols_def)

lemma is_matrix_nth: "is_matrix r c M \<Longrightarrow> i < r \<Longrightarrow> length (M ! i) = c"
  by (auto simp: is_matrix_def list_all_length)

lemma is_matrix_length: "is_matrix r c M \<Longrightarrow> length M = r"
  by (simp add: is_matrix_def)

lemma transpose_m_is_matrix:
  "is_matrix r c M \<Longrightarrow> 0 < r \<Longrightarrow> is_matrix c r (transpose_m M)"
  by (auto simp: transpose_m_def ncols_is_matrix is_matrix_def list_all_length col_def)

lemma transpose_m_nth:
  "is_matrix r c M \<Longrightarrow> i < r \<Longrightarrow> j < c \<Longrightarrow> transpose_m M ! j ! i = M ! i ! j"
  using ncols_is_matrix[of r c M] by (auto simp: transpose_m_def col_def is_matrix_def)

lemma expand_same: "length xs = n \<Longrightarrow> expand n xs = xs"
  by (simp add: expand_def)

lemma expand_matrix_same: "is_matrix r c M \<Longrightarrow> expand_matrix r c M = Some M"
  by (auto simp: expand_matrix_def expand_vec_def expand_def is_matrix_def list_all_iff intro: map_idI)

lemma or_raise_Inr: "or_raise r f = Inr y \<longleftrightarrow> (\<exists>v. r = Inr v \<and> f v = Inr y)"
  by (cases r) (auto simp: or_raise_def)

lemma or_raise_simps: "or_raise (Inr v) f = f v" "or_raise (Inl e) f = Inl e"
  by (simp_all add: or_raise_def)

section \<open>The queue\<close>

lemma assign_columns_fit:
  assumes Q: "is_matrix D Kn Q" and S: "is_matrix D B S" and D: "0 < D"
    and a: "0 \<le> a" and b: "a + int B \<le> int Kn"
  shows "\<exists>Q'. assign_columns Q a (a + int B) S = Some Q' \<and> is_matrix D Kn Q' \<and>
     (\<forall>d<D. \<forall>j<Kn. Q' ! d ! j =
        (if nat a \<le> j \<and> j < nat a + B then S ! d ! (j - nat a) else Q ! d ! j))"
proof -
  have nc: "ncols Q = Kn" using Q D by (rule ncols_is_matrix)
  have lo: "slice_index Kn a = nat a" using a b by (auto simp: slice_index_def)
  have hi: "slice_index Kn (a + int B) = nat a + B" using a b by (auto simp: slice_index_def)
  let ?Q' = "map2 (\<lambda>row new. take (nat a) row @ new @ drop (nat a + B) row) Q S"
  have eq: "assign_columns Q a (a + int B) S = Some ?Q'"
    using Q S
    by (simp add: assign_columns_def Let_def nc lo hi nrows_def is_matrix_length expand_matrix_same)
  have len: "length ?Q' = D" using Q S by (simp add: is_matrix_length)
  have row: "?Q' ! d = take (nat a) (Q ! d) @ S ! d @ drop (nat a + B) (Q ! d)" if "d < D" for d
    using that Q S by (simp add: is_matrix_length)
  have lrow: "length (?Q' ! d) = Kn" if "d < D" for d
    using that row[OF that] is_matrix_nth[OF Q that] is_matrix_nth[OF S that] a b by auto
  have m: "is_matrix D Kn ?Q'"
    unfolding is_matrix_def list_all_length using len lrow by auto
  have ent: "?Q' ! d ! j = (if nat a \<le> j \<and> j < nat a + B then S ! d ! (j - nat a) else Q ! d ! j)"
    if "d < D" "j < Kn" for d j
    using that row[OF that(1)] is_matrix_nth[OF Q that(1)] is_matrix_nth[OF S that(1)] a b
    by (auto simp: nth_append)
  show ?thesis using eq m ent by blast
qed

lemma enqueue_effect:
  assumes Q: "is_matrix D Kn (queue st)" and K: "self_K st = int Kn"
    and keys: "is_matrix B D keys" and B: "0 < B" and D: "0 < D"
    and dv: "B dvd Kn" and p0: "0 \<le> queue_ptr st" and p1: "queue_ptr st + int B \<le> int Kn"
  shows "\<exists>Q'. dequeue_and_enqueue_single_gpu st keys =
            Inr (st\<lparr>queue := Q', queue_ptr := (queue_ptr st + int B) mod int Kn\<rparr>) \<and>
          is_matrix D Kn Q' \<and>
          (\<forall>d<D. \<forall>j<Kn. Q' ! d ! j =
             (if nat (queue_ptr st) \<le> j \<and> j < nat (queue_ptr st) + B
              then keys ! (j - nat (queue_ptr st)) ! d else queue st ! d ! j))"
proof -
  have Kpos: "0 < Kn" using B p0 p1 by linarith
  have T: "is_matrix D B (transpose_m keys)" using keys B by (rule transpose_m_is_matrix)
  from assign_columns_fit[OF Q T D p0 p1] obtain Q' where
    eq: "assign_columns (queue st) (queue_ptr st) (queue_ptr st + int B) (transpose_m keys) = Some Q'"
    and m: "is_matrix D Kn Q'"
    and ent: "\<forall>d<D. \<forall>j<Kn. Q' ! d ! j =
        (if nat (queue_ptr st) \<le> j \<and> j < nat (queue_ptr st) + B
         then transpose_m keys ! d ! (j - nat (queue_ptr st)) else queue st ! d ! j)"
    by blast
  have md: "int Kn mod int B = 0" using dv by (metis int_dvd_int_iff mod_0_imp_dvd dvd_imp_mod_0)
  have run: "dequeue_and_enqueue_single_gpu st keys =
      Inr (st\<lparr>queue := Q', queue_ptr := (queue_ptr st + int B) mod int Kn\<rparr>)"
    using B Kpos keys eq md
    by (simp add: dequeue_and_enqueue_single_gpu_def Let_def nrows_def is_matrix_length K)
  have ent': "Q' ! d ! j =
      (if nat (queue_ptr st) \<le> j \<and> j < nat (queue_ptr st) + B
       then keys ! (j - nat (queue_ptr st)) ! d else queue st ! d ! j)" if "d < D" "j < Kn" for d j
    using ent that transpose_m_nth[OF keys, of "j - nat (queue_ptr st)" d] by auto
  show ?thesis using run m ent' by auto
qed

lemmas enqueue_eval =
  dequeue_and_enqueue_single_gpu_def Let_def nrows_def ncols_def assign_columns_def
  slice_index_def expand_matrix_def expand_vec_def expand_def transpose_m_def col_def

text \<open>
  C3, as the code has it. With a batch of \<open>B\<close> key vectors of dimension \<open>D\<close>, a queue of shape
  \<open>D \<times> K\<close>, \<open>B\<close> dividing \<open>K\<close>, \<open>0 \<le> ptr\<close> and \<open>ptr + B \<le> K\<close> (so that the written slice does not
  run over the end of the queue), the call returns; afterwards the \<open>B\<close> columns from the prior
  \<open>ptr\<close> on are the key batch transposed, every other column is unchanged, the new \<open>ptr\<close> is
  \<open>(ptr + B) mod K\<close>, and \<open>0 \<le> ptr < K\<close> holds again.
\<close>

theorem enqueue_writes_columns:
  assumes "is_matrix D Kn (queue st)" and "self_K st = int Kn"
    and "is_matrix B D keys" and "0 < B" and "0 < D"
    and "B dvd Kn" and "0 \<le> queue_ptr st" and "queue_ptr st + int B \<le> int Kn"
  shows "\<exists>st'. dequeue_and_enqueue_single_gpu st keys = Inr st' \<and>
          is_matrix D Kn (queue st') \<and>
          (\<forall>d<D. \<forall>j<Kn. queue st' ! d ! j =
             (if nat (queue_ptr st) \<le> j \<and> j < nat (queue_ptr st) + B
              then keys ! (j - nat (queue_ptr st)) ! d else queue st ! d ! j)) \<and>
          queue_ptr st' = (queue_ptr st + int B) mod int Kn \<and>
          0 \<le> queue_ptr st' \<and> queue_ptr st' < int Kn"
proof -
  from enqueue_effect[OF assms] obtain Q' where
    run: "dequeue_and_enqueue_single_gpu st keys =
            Inr (st\<lparr>queue := Q', queue_ptr := (queue_ptr st + int B) mod int Kn\<rparr>)"
    and m: "is_matrix D Kn Q'"
    and ent: "\<forall>d<D. \<forall>j<Kn. Q' ! d ! j =
             (if nat (queue_ptr st) \<le> j \<and> j < nat (queue_ptr st) + B
              then keys ! (j - nat (queue_ptr st)) ! d else queue st ! d ! j)"
    by blast
  have "0 < Kn" using assms(4,7,8) by linarith
  then show ?thesis using run m ent by simp
qed

theorem enqueue_writes_columns_witness:
  "is_matrix 2 4 (queue (ring_model 2)) \<and> self_K (ring_model 2) = int 4 \<and>
   is_matrix 2 2 [[5, 6], [7, 8]] \<and> (2::nat) dvd 4 \<and>
   0 \<le> queue_ptr (ring_model 2) \<and> queue_ptr (ring_model 2) + int 2 \<le> int 4 \<and>
   dequeue_and_enqueue_single_gpu (ring_model 2) [[5, 6], [7, 8]] =
     Inr ((ring_model 2)\<lparr>queue := [[1, 0, 5, 7], [0, 1, 6, 8]], queue_ptr := 0\<rparr>)"
  using enqueue_writes_columns[of 2 4 "ring_model 2" 2 "[[5, 6], [7, 8]]"]
  by (simp add: ring_model_def is_matrix_def enqueue_eval)

text \<open>
  C3 as stated fails: \<open>B = 2\<close> divides \<open>K = 4\<close> and \<open>0 \<le> ptr = 3 < 4\<close>, but the slice
  \<^verbatim>\<open>queue[:, 3:5]\<close> has one column only and the assignment of two columns raises.
\<close>

theorem enqueue_unaligned_counterexample:
  "is_matrix 2 4 (queue (ring_model 3)) \<and> is_matrix 2 2 [[5, 6], [7, 8]] \<and>
   (2::int) dvd self_K (ring_model 3) \<and>
   0 \<le> queue_ptr (ring_model 3) \<and> queue_ptr (ring_model 3) < self_K (ring_model 3) \<and>
   dequeue_and_enqueue_single_gpu (ring_model 3) [[5, 6], [7, 8]] = Inl RuntimeError"
  by (simp add: ring_model_def is_matrix_def enqueue_eval)

text \<open>
  C7. When the batch size does not divide the capacity, the enqueue call raises before it
  writes anything: the assertion fails, or the modulus by an empty batch does.
\<close>

theorem enqueue_rejects_indivisible:
  assumes "\<not> int (nrows keys) dvd self_K st"
  shows "dequeue_and_enqueue_single_gpu st keys =
           Inl (if nrows keys = 0 then ZeroDivisionError else AssertionError)"
  using assms by (auto simp: dequeue_and_enqueue_single_gpu_def Let_def dvd_eq_mod_eq_0)

theorem enqueue_rejects_indivisible_witness:
  "\<not> int (nrows keys_32) dvd self_K model_100 \<and>
   dequeue_and_enqueue_single_gpu model_100 keys_32 = Inl AssertionError"
  using enqueue_rejects_indivisible[of keys_32 model_100]
  by (simp add: keys_32_def model_100_def nrows_def)

section \<open>The momentum update\<close>

lemma momentum_loop_same_shape:
  assumes "map length qs = map length ks"
  shows "momentum_loop mm qs ks = Inr (map2 (\<lambda>pk pq. map2 (\<lambda>k q. k * mm + q * (1 - mm)) pk pq) ks qs)"
  using assms
proof (induction mm qs ks rule: momentum_loop.induct)
  case (1 mm pq qs pk ks)
  then show ?case by (simp add: momentum_param_def)
next
  case (2 mm ks)
  then show ?case by simp
next
  case (3 mm qs)
  then show ?case by simp
qed

text \<open>
  C4. When the parameter tensors of the two encoders agree in shape pair by pair, one call
  of the momentum update returns; every key parameter becomes \<open>m \<cdot> k + (1 - m) \<cdot> q\<close>, the query
  encoder is left as it was, and with \<open>m = 0\<close> the key parameters are the query parameters.
\<close>

theorem momentum_update_rule:
  assumes shapes: "map length (parameters (encoder_q st)) = map length (parameters (encoder_k st))"
  shows "\<exists>st'. momentum_update_key_encoder st = Inr st' \<and>
           encoder_q st' = encoder_q st \<and>
           length (parameters (encoder_k st')) = length (parameters (encoder_k st)) \<and>
           (\<forall>i<length (parameters (encoder_k st)).
              length (parameters (encoder_k st') ! i) = length (parameters (encoder_k st) ! i) \<and>
              (\<forall>j<length (parameters (encoder_k st) ! i).
                 parameters (encoder_k st') ! i ! j =
                   self_m st * parameters (encoder_k st) ! i ! j
                   + (1 - self_m st) * parameters (encoder_q st) ! i ! j)) \<and>
           (self_m st = 0 \<longrightarrow> parameters (encoder_k st') = parameters (encoder_q st))"
proof -
  let ?qs = "parameters (encoder_q st)" and ?ks = "parameters (encoder_k st)"
  let ?f = "\<lambda>pk pq. map2 (\<lambda>k q. k * self_m st + q * (1 - self_m st)) pk pq"
  let ?new = "map2 ?f ?ks ?qs"
  let ?st' = "st\<lparr>encoder_k := (encoder_k st)\<lparr>parameters := ?new\<rparr>\<rparr>"
  have run: "momentum_update_key_encoder st = Inr ?st'"
    by (simp add: momentum_update_key_encoder_def momentum_loop_same_shape[OF shapes])
  have len: "length ?qs = length ?ks" using shapes by (metis length_map)
  have leni: "length (?qs ! i) = length (?ks ! i)" if "i < length ?ks" for i
    using shapes that len by (metis nth_map)
  have lnew: "length ?new = length ?ks" using len by simp
  have row: "?new ! i = ?f (?ks ! i) (?qs ! i)" if "i < length ?ks" for i
    using that len by simp
  have lrow: "length (?new ! i) = length (?ks ! i)" if "i < length ?ks" for i
    using row[OF that] leni[OF that] by simp
  have ent: "?new ! i ! j = self_m st * ?ks ! i ! j + (1 - self_m st) * ?qs ! i ! j"
    if "i < length ?ks" "j < length (?ks ! i)" for i j
    using row[OF that(1)] leni[OF that(1)] that(2) by (simp add: mult.commute)
  have zero: "?new = ?qs" if m0: "self_m st = 0"
  proof (rule nth_equalityI)
    show "length ?new = length ?qs" using lnew len by simp
  next
    fix i assume "i < length ?new"
    then have i: "i < length ?ks" using lnew by simp
    show "?new ! i = ?qs ! i"
    proof (rule nth_equalityI)
      show "length (?new ! i) = length (?qs ! i)" using lrow[OF i] leni[OF i] by simp
    next
      fix j assume "j < length (?new ! i)"
      then have "j < length (?ks ! i)" using lrow[OF i] by simp
      from ent[OF i this] show "?new ! i ! j = ?qs ! i ! j" using m0 by simp
    qed
  qed
  show ?thesis
    using run lnew lrow ent zero by (intro exI[of _ ?st']) simp
qed

theorem momentum_update_rule_witness:
  "map length (parameters (encoder_q small_model)) = map length (parameters (encoder_k small_model)) \<and>
   momentum_update_key_encoder small_model =
     Inr (small_model\<lparr>encoder_k := \<lparr>parameters = [[2, 4]], backbone = ()\<rparr>\<rparr>) \<and>
   self_m (small_model\<lparr>self_m := 0\<rparr>) = 0 \<and>
   momentum_update_key_encoder (small_model\<lparr>self_m := 0\<rparr>) =
     Inr (small_model\<lparr>self_m := 0, encoder_k := \<lparr>parameters = [[1, 2]], backbone = ()\<rparr>\<rparr>)"
  using momentum_update_rule[of small_model] momentum_update_rule[of "small_model\<lparr>self_m := 0\<rparr>"]
  by (simp add: small_model_def momentum_update_key_encoder_def momentum_param_def)

section \<open>Batch shuffle\<close>

lemma randperm_props:
  assumes "is_randperm n idx"
  shows "length idx = n" "set idx = {0..<n}" "distinct idx"
proof -
  have s: "sort idx = [0..<n]" using assms by (simp add: is_randperm_def)
  have "length (sort idx) = n" by (simp add: s)
  then show "length idx = n" by simp
  have "set (sort idx) = {0..<n}" by (simp add: s)
  then show "set idx = {0..<n}" by simp
  have "distinct (sort idx)" by (simp add: s)
  then show "distinct idx" by simp
qed

lemma argsort_inverse:
  assumes p: "is_randperm n idx" and j: "j < n"
  shows "argsort idx ! j < n \<and> idx ! (argsort idx ! j) = j"
proof -
  note len = randperm_props(1)[OF p] and st = randperm_props(2)[OF p] and di = randperm_props(3)[OF p]
  let ?zs = "zip idx [0..<length idx]"
  let ?ss = "sort_key fst ?zs"
  have mf: "map fst ?zs = idx" by simp
  have 1: "sorted (map fst ?ss)" by (rule sorted_sort_key)
  have "set (map fst ?ss) = set (map fst ?zs)" by (simp only: set_map set_sort)
  also have "\<dots> = set idx" by (simp only: mf)
  finally have 2: "set (map fst ?ss) = {0..<n}" using st by (simp only:)
  have "distinct (map fst ?zs)" using di mf by simp
  then have 3: "distinct (map fst ?ss)"
    by (metis distinct_map set_sort distinct_sort)
  have keys: "map fst ?ss = [0..<n]"
    by (rule sorted_distinct_set_unique[OF 1 3 sorted_upt distinct_upt]) (simp only: 2 set_upt)
  have ls: "length ?ss = n" using len by simp
  have fj: "fst (?ss ! j) = j"
    using keys j ls by (metis nth_map nth_upt add_0)
  have "?ss ! j \<in> set ?ss" using ls j by (metis nth_mem)
  then have "?ss ! j \<in> set ?zs" by simp
  then obtain i where i: "i < n" "?ss ! j = (idx ! i, i)"
    using len by (auto simp: in_set_conv_nth)
  have "argsort idx ! j = i" using i ls j by (simp add: argsort_def)
  moreover have "idx ! i = j" using fj i by simp
  ultimately show ?thesis using i by simp
qed

lemma length_argsort: "length (argsort idx) = length idx"
  by (simp add: argsort_def)

text \<open>
  C5. For every batch \<open>x\<close> and every permutation that \<^verbatim>\<open>randperm\<close> can draw, shuffling returns
  the permuted batch with the inverse index, and unshuffling the permuted batch with that
  index gives \<open>x\<close> back.
\<close>

theorem shuffle_unshuffle:
  assumes p: "is_randperm (length x) idx_shuffle"
  shows "\<exists>y. batch_shuffle_single_gpu idx_shuffle x = Inr (y, argsort idx_shuffle) \<and>
             batch_unshuffle_single_gpu y (argsort idx_shuffle) = Inr x"
proof -
  let ?n = "length x"
  note len = randperm_props(1)[OF p] and st = randperm_props(2)[OF p]
  let ?y = "map (nth x) idx_shuffle"
  have inr: "list_all (\<lambda>i. i < ?n) idx_shuffle" using st by (simp add: list_all_iff)
  have sh: "batch_shuffle_single_gpu idx_shuffle x = Inr (?y, argsort idx_shuffle)"
    using inr by (simp add: batch_shuffle_single_gpu_def index_select_def)
  have inr2: "list_all (\<lambda>i. i < length ?y) (argsort idx_shuffle)"
    using argsort_inverse[OF p] len by (simp add: list_all_length length_argsort)
  have "map (nth ?y) (argsort idx_shuffle) = x"
  proof (rule nth_equalityI)
    show "length (map (nth ?y) (argsort idx_shuffle)) = length x"
      by (simp add: length_argsort len)
  next
    fix j assume "j < length (map (nth ?y) (argsort idx_shuffle))"
    then have j: "j < ?n" by (simp add: length_argsort len)
    from argsort_inverse[OF p j] show "map (nth ?y) (argsort idx_shuffle) ! j = x ! j"
      using j len by (simp add: length_argsort)
  qed
  then have "batch_unshuffle_single_gpu ?y (argsort idx_shuffle) = Inr x"
    using inr2 by (simp add: batch_unshuffle_single_gpu_def index_select_def)
  with sh show ?thesis by blast
qed

theorem shuffle_unshuffle_witness:
  "is_randperm (length [10, 11, 12, 13 :: int]) [2, 0, 3, 1] \<and>
   batch_shuffle_single_gpu [2, 0, 3, 1] [10, 11, 12, 13 :: int] = Inr ([12, 10, 13, 11], [1, 3, 0, 2]) \<and>
   batch_unshuffle_single_gpu [12, 10, 13, 11 :: int] [1, 3, 0, 2] = Inr [10, 11, 12, 13]"
  using shuffle_unshuffle[of "[10, 11, 12, 13 :: int]" "[2, 0, 3, 1]"]
  by (simp add: is_randperm_def batch_shuffle_single_gpu_def batch_unshuffle_single_gpu_def
      index_select_def argsort_def upt_rec)

section \<open>Scoring\<close>

lemma forward_Inr:
  assumes "forward encode idx st im_q im_k = Inr (logits, labels, st')"
  shows "\<exists>q st1 k st3.
           query_features encode st im_q = Inr (q, st1) \<and>
           key_features encode idx st1 im_k = Inr (k, st3) \<and>
           compute_logits q k (queue st3) (self_T st3) = Inr (logits, labels) \<and>
           dequeue_and_enqueue_single_gpu st3 k = Inr st'"
  using assms by (auto simp: forward_def or_raise_Inr)

lemma query_features_Inr:
  assumes "query_features encode st im_q = Inr (q, st1)"
  shows "\<exists>q0 bq. encode (encoder_q st) im_q = Inr (q0, bq) \<and> q = normalize_rows q0 \<and>
           st1 = st\<lparr>encoder_q := (encoder_q st)\<lparr>backbone := bq\<rparr>\<rparr>"
  using assms by (auto simp: query_features_def or_raise_Inr)

lemma momentum_update_fields:
  assumes "momentum_update_key_encoder st = Inr st'"
  shows "queue st' = queue st" "self_T st' = self_T st" "self_K st' = self_K st"
    "queue_ptr st' = queue_ptr st" "encoder_q st' = encoder_q st" "self_m st' = self_m st"
  using assms by (auto simp: momentum_update_key_encoder_def split: sum.splits)

lemma key_features_Inr:
  assumes "key_features encode idx st1 im_k = Inr (k, st3)"
  shows "\<exists>st2 im_k' k0 bk.
           momentum_update_key_encoder st1 = Inr st2 \<and>
           batch_shuffle_single_gpu idx im_k = Inr (im_k', argsort idx) \<and>
           encode (encoder_k st2) im_k' = Inr (k0, bk) \<and>
           batch_unshuffle_single_gpu (normalize_rows k0) (argsort idx) = Inr k \<and>
           st3 = st2\<lparr>encoder_k := (encoder_k st2)\<lparr>backbone := bk\<rparr>\<rparr>"
  using assms
  by (auto simp: key_features_def or_raise_Inr batch_shuffle_single_gpu_def Let_def
      split: sum.splits)

lemma key_features_fields:
  assumes "key_features encode idx st1 im_k = Inr (k, st3)"
  shows "queue st3 = queue st1" "self_T st3 = self_T st1" "self_K st3 = self_K st1"
    "queue_ptr st3 = queue_ptr st1" "encoder_q st3 = encoder_q st1"
  using key_features_Inr[OF assms] momentum_update_fields by fastforce+

lemma normalize_rows_is_matrix: "is_matrix r c M \<Longrightarrow> is_matrix r c (normalize_rows M)"
  by (auto simp: is_matrix_def normalize_rows_def normalize_vec_def list_all_iff)

lemma compute_logits_Inr:
  assumes "compute_logits q k Q T = Inr (logits, labels)"
  shows "\<exists>l_pos l_neg. einsum_nc_nc_n q k = Inr l_pos \<and> einsum_nc_ck_nk q Q = Inr l_neg \<and>
           length l_pos = length l_neg \<and>
           logits = map (map (\<lambda>x. x / T)) (map2 (#) l_pos l_neg) \<and>
           labels = replicate (length l_neg) 0"
  using assms
  by (auto simp: compute_logits_def or_raise_Inr cat_pos_neg_def nrows_def Let_def split: if_splits)

lemma einsum_pos_same_shape:
  assumes q: "is_matrix N D q" and k: "is_matrix N D k"
  shows "einsum_nc_nc_n q k = Inr (map (\<lambda>i. dot (q ! i) (k ! i)) [0..<N])"
proof -
  have nq: "length q = N" and nk: "length k = N" using q k by (simp_all add: is_matrix_length)
  have nc: "ncols q = ncols k"
  proof (cases "N = 0")
    case True then show ?thesis using nq nk by (simp add: ncols_def)
  next
    case False then show ?thesis using ncols_is_matrix[OF q] ncols_is_matrix[OF k] by simp
  qed
  have "map2 (\<lambda>u v. dot (expand (ncols k) u) (expand (ncols k) v)) q k
        = map (\<lambda>i. dot (q ! i) (k ! i)) [0..<N]"
  proof (rule nth_equalityI)
    show "length (map2 (\<lambda>u v. dot (expand (ncols k) u) (expand (ncols k) v)) q k)
          = length (map (\<lambda>i. dot (q ! i) (k ! i)) [0..<N])" using nq nk by simp
  next
    fix i assume "i < length (map2 (\<lambda>u v. dot (expand (ncols k) u) (expand (ncols k) v)) q k)"
    then have i: "i < N" using nq nk by simp
    then have "ncols k = D" using ncols_is_matrix[OF k] by simp
    then show "map2 (\<lambda>u v. dot (expand (ncols k) u) (expand (ncols k) v)) q k ! i
          = map (\<lambda>i. dot (q ! i) (k ! i)) [0..<N] ! i"
      using i nq nk is_matrix_nth[OF q i] is_matrix_nth[OF k i] by (simp add: expand_same)
  qed
  then show ?thesis
    using nq nk nc by (simp add: einsum_nc_nc_n_def broadcast_size_def nrows_def expand_same)
qed

lemma einsum_neg_same_shape:
  assumes q: "is_matrix N D q" and Q: "is_matrix D Kn Q" and N: "0 < N" and D: "0 < D"
  shows "einsum_nc_ck_nk q Q = Inr (map (\<lambda>i. map (\<lambda>j. dot (q ! i) (col Q j)) [0..<Kn]) [0..<N])"
proof -
  have nq: "length q = N" using q by (simp add: is_matrix_length)
  have c: "ncols q = D" using ncols_is_matrix[OF q N] .
  have r: "nrows Q = D" using Q by (simp add: nrows_def is_matrix_length)
  have k: "ncols Q = Kn" using ncols_is_matrix[OF Q D] .
  have eQ: "expand D Q = Q" using r by (simp add: expand_same nrows_def)
  have "map (\<lambda>u. map (\<lambda>j. dot (expand D u) (col Q j)) [0..<Kn]) q
        = map (\<lambda>i. map (\<lambda>j. dot (q ! i) (col Q j)) [0..<Kn]) [0..<N]"
  proof (rule nth_equalityI)
    show "length (map (\<lambda>u. map (\<lambda>j. dot (expand D u) (col Q j)) [0..<Kn]) q)
        = length (map (\<lambda>i. map (\<lambda>j. dot (q ! i) (col Q j)) [0..<Kn]) [0..<N])" using nq by simp
  next
    fix i assume "i < length (map (\<lambda>u. map (\<lambda>j. dot (expand D u) (col Q j)) [0..<Kn]) q)"
    then have i: "i < N" using nq by simp
    show "map (\<lambda>u. map (\<lambda>j. dot (expand D u) (col Q j)) [0..<Kn]) q ! i
        = map (\<lambda>i. map (\<lambda>j. dot (q ! i) (col Q j)) [0..<Kn]) [0..<N] ! i"
      using i nq is_matrix_nth[OF q i] by (simp add: expand_same)
  qed
  then show ?thesis
    by (simp add: einsum_nc_ck_nk_def broadcast_size_def c r k eQ)
qed

lemma enqueue_Inr_nonempty:
  "dequeue_and_enqueue_single_gpu st keys = Inr st' \<Longrightarrow> 0 < length keys"
  by (auto simp: dequeue_and_enqueue_single_gpu_def Let_def nrows_def split: if_splits)

lemma query_features_fields:
  assumes "query_features encode st im_q = Inr (q, st1)"
  shows "queue st1 = queue st" "self_T st1 = self_T st" "self_K st1 = self_K st"
    "queue_ptr st1 = queue_ptr st"
  using query_features_Inr[OF assms] by auto

lemma map_tl_cat:
  "length ps = length ns \<Longrightarrow> map tl (map (map f) (map2 (#) ps ns)) = map (map f) ns"
  by (induction ps ns rule: list_induct2) simp_all

lemma index_select_Inr:
  "index_select x idx = Inr y \<Longrightarrow> y = map (nth x) idx \<and> (\<forall>i\<in>set idx. i < length x)"
  by (auto simp: index_select_def list_all_iff split: if_splits)

lemma key_features_shape:
  assumes kf: "key_features encode idx st1 im_k = Inr (k, st3)"
    and enc: "\<forall>e x y b. encode e x = Inr (y, b) \<longrightarrow> is_matrix (length x) D y"
    and nk: "length im_k = N" and perm: "is_randperm N idx"
  shows "is_matrix N D k"
proof -
  from key_features_Inr[OF kf] obtain st2 im_k' k0 bk where
    mu: "momentum_update_key_encoder st1 = Inr st2" and
    sh: "batch_shuffle_single_gpu idx im_k = Inr (im_k', argsort idx)"
    and e: "encode (encoder_k st2) im_k' = Inr (k0, bk)"
    and un: "batch_unshuffle_single_gpu (normalize_rows k0) (argsort idx) = Inr k"
    by blast
  have li: "length idx = N" using randperm_props(1)[OF perm] .
  have "im_k' = map (nth im_k) idx"
    using sh by (auto simp: batch_shuffle_single_gpu_def Let_def index_select_def split: if_splits)
  then have "length im_k' = N" using li by simp
  then have k0: "is_matrix N D k0" using enc e by auto
  then have k1: "is_matrix N D (normalize_rows k0)" by (rule normalize_rows_is_matrix)
  have k: "k = map (nth (normalize_rows k0)) (argsort idx)"
    using un index_select_Inr by (auto simp: batch_unshuffle_single_gpu_def)
  have "length k = N" using k li by (simp add: length_argsort)
  moreover have "length (k ! j) = D" if "j < N" for j
  proof -
    have "argsort idx ! j < N" using argsort_inverse[OF perm that] by simp
    then show ?thesis using k that li is_matrix_nth[OF k1] by (simp add: length_argsort)
  qed
  ultimately show ?thesis by (simp add: is_matrix_def list_all_length)
qed

lemma forward_scores:
  assumes run: "forward encode idx_shuffle st im_q im_k = Inr (logits, labels, st')"
    and enc: "\<forall>e x y b. encode e x = Inr (y, b) \<longrightarrow> is_matrix (length x) D y"
    and Q: "is_matrix D Kn (queue st)" and D: "0 < D"
    and nq: "length im_q = N" and nk: "length im_k = N" and perm: "is_randperm N idx_shuffle"
  shows "\<exists>q st1 k st3.
      query_features encode st im_q = Inr (q, st1) \<and>
      key_features encode idx_shuffle st1 im_k = Inr (k, st3) \<and>
      0 < N \<and> is_matrix N D q \<and> is_matrix N D k \<and>
      labels = replicate N 0 \<and>
      logits = map (map (\<lambda>x. x / self_T st))
                 (map (\<lambda>i. dot (q ! i) (k ! i) # map (\<lambda>j. dot (q ! i) (col (queue st) j)) [0..<Kn])
                    [0..<N])"
proof -
  from forward_Inr[OF run] obtain q st1 k st3 where
    qf: "query_features encode st im_q = Inr (q, st1)"
    and kf: "key_features encode idx_shuffle st1 im_k = Inr (k, st3)"
    and cl: "compute_logits q k (queue st3) (self_T st3) = Inr (logits, labels)"
    and en: "dequeue_and_enqueue_single_gpu st3 k = Inr st'"
    by blast
  have Qeq: "queue st3 = queue st" and Teq: "self_T st3 = self_T st"
    using key_features_fields[OF kf] query_features_fields[OF qf] by simp_all
  from query_features_Inr[OF qf] obtain q0 bq where
    e: "encode (encoder_q st) im_q = Inr (q0, bq)" and q: "q = normalize_rows q0" by blast
  have "is_matrix N D q0" using enc e nq by auto
  then have mq: "is_matrix N D q" using q by (simp add: normalize_rows_is_matrix)
  have mk: "is_matrix N D k" using key_features_shape[OF kf enc nk perm] .
  have N: "0 < N" using enqueue_Inr_nonempty[OF en] mk by (simp add: is_matrix_length)
  from compute_logits_Inr[OF cl] obtain l_pos l_neg where
    lp: "einsum_nc_nc_n q k = Inr l_pos" and ln: "einsum_nc_ck_nk q (queue st) = Inr l_neg"
    and lg: "logits = map (map (\<lambda>x. x / self_T st)) (map2 (#) l_pos l_neg)"
    and lb: "labels = replicate (length l_neg) 0"
    unfolding Qeq Teq by blast
  have lp': "l_pos = map (\<lambda>i. dot (q ! i) (k ! i)) [0..<N]"
    using lp einsum_pos_same_shape[OF mq mk] by simp
  have ln': "l_neg = map (\<lambda>i. map (\<lambda>j. dot (q ! i) (col (queue st) j)) [0..<Kn]) [0..<N]"
    using ln einsum_neg_same_shape[OF mq Q N D] by simp
  have z: "map2 (#) l_pos l_neg =
      map (\<lambda>i. dot (q ! i) (k ! i) # map (\<lambda>j. dot (q ! i) (col (queue st) j)) [0..<Kn]) [0..<N]"
    unfolding lp' ln' by (rule nth_equalityI) simp_all
  have lg': "logits = map (map (\<lambda>x. x / self_T st))
                 (map (\<lambda>i. dot (q ! i) (k ! i) # map (\<lambda>j. dot (q ! i) (col (queue st) j)) [0..<Kn])
                    [0..<N])"
    unfolding lg z ..
  have lb': "labels = replicate N 0" unfolding lb ln' by simp
  show ?thesis
    by (intro exI[of _ q] exI[of _ st1] exI[of _ k] exI[of _ st3] conjI qf kf N mq mk lb' lg')
qed

subsection \<open>One forward call on the small model\<close>

lemma l2_norm_axis [simp]: "l2_norm [0, 2] = 2" "l2_norm [0, - 2] = 2"
  by (simp_all add: l2_norm_def)

lemma normalize_axis [simp]: "normalize_vec [0, 2] = [0, 1]" "normalize_vec [0, - 2] = [0, - 1]"
  by (simp_all add: normalize_vec_def normalize_eps_def)

lemma query_features_small:
  "query_features pair_encode small_model im_q_2 = Inr ([[0, 1], [0, 1]], small_model)"
  by (simp add: query_features_def pair_encode_def im_q_2_def or_raise_simps normalize_rows_def
      small_model_def)

lemma argsort_10: "argsort [1, 0] = [1, 0]"
  by (simp add: argsort_def upt_rec)

lemma key_features_small:
  "key_features pair_encode [1, 0] small_model im_k_2 = Inr ([[0, 1], [0, - 1]], small_model_keys)"
  by (simp add: key_features_def pair_encode_def im_k_2_def or_raise_simps normalize_rows_def
      small_model_def small_model_keys_def momentum_update_key_encoder_def momentum_param_def
      batch_shuffle_single_gpu_def batch_unshuffle_single_gpu_def index_select_def
      argsort_10[simplified])

lemma compute_logits_small:
  "compute_logits [[0, 1], [0, 1]] [[0, 1], [0, - 1]] [[1, 0], [0, 1]] 2
     = Inr ([[1 / 2, 0, 1 / 2], [- 1 / 2, 0, 1 / 2]], [0, 0])"
  by (simp add: compute_logits_def einsum_nc_nc_n_def einsum_nc_ck_nk_def cat_pos_neg_def
      or_raise_simps broadcast_size_def nrows_def ncols_def expand_def dot_def col_def upt_rec
      numeral_2_eq_2)

lemma enqueue_small:
  "dequeue_and_enqueue_single_gpu small_model_keys [[0, 1], [0, - 1]] = Inr small_model_after"
  by (simp add: small_model_after_def small_model_keys_def small_model_def enqueue_eval upt_rec)

lemma forward_small:
  "forward pair_encode [1, 0] small_model im_q_2 im_k_2
     = Inr ([[1 / 2, 0, 1 / 2], [- 1 / 2, 0, 1 / 2]], [0, 0], small_model_after)"
proof -
  have q: "queue small_model_keys = [[1, 0], [0, 1]]" "self_T small_model_keys = 2"
    by (simp_all add: small_model_keys_def small_model_def)
  show ?thesis
    by (simp add: forward_def query_features_small key_features_small[simplified] or_raise_simps q
        compute_logits_small enqueue_small)
qed


lemma pair_encode_shape: "\<forall>e x y b. pair_encode e x = Inr (y, b) \<longrightarrow> is_matrix (length x) 2 y"
  by (auto simp: pair_encode_def is_matrix_def list_all_iff)

text \<open>
  C1, as the code has it. When a forward call on \<open>N\<close> query and \<open>N\<close> key images returns, with
  encoders that map a batch of \<open>n\<close> images to \<open>n \<times> D\<close> features and a queue of shape \<open>D \<times> K\<close>, the
  labels are \<open>N\<close> zeros, the logits are the rows \<open>[dot(q\<^sub>i, k\<^sub>i) | dot(q\<^sub>i, queue column j), j < K]\<close>
  divided entry by entry by \<open>T\<close>, so they have shape \<open>N \<times> (1 + K)\<close>, and column 0 holds
  \<open>dot(q\<^sub>i, k\<^sub>i) / T\<close>.
\<close>

theorem forward_logits_and_labels:
  assumes "forward encode idx_shuffle st im_q im_k = Inr (logits, labels, st')"
    and "\<forall>e x y b. encode e x = Inr (y, b) \<longrightarrow> is_matrix (length x) D y"
    and "is_matrix D Kn (queue st)" and "0 < D"
    and "length im_q = N" and "length im_k = N" and "is_randperm N idx_shuffle"
  shows "\<exists>q st1 k st3.
      query_features encode st im_q = Inr (q, st1) \<and>
      key_features encode idx_shuffle st1 im_k = Inr (k, st3) \<and>
      labels = replicate N 0 \<and>
      logits = map (map (\<lambda>x. x / self_T st))
                 (map (\<lambda>i. dot (q ! i) (k ! i) # map (\<lambda>j. dot (q ! i) (col (queue st) j)) [0..<Kn])
                    [0..<N]) \<and>
      length logits = N \<and>
      (\<forall>i<N. length (logits ! i) = 1 + Kn \<and> logits ! i ! 0 = dot (q ! i) (k ! i) / self_T st)"
proof -
  from forward_scores[OF assms] obtain q st1 k st3 where
    qf: "query_features encode st im_q = Inr (q, st1)"
    and kf: "key_features encode idx_shuffle st1 im_k = Inr (k, st3)"
    and lb: "labels = replicate N 0"
    and lg: "logits = map (map (\<lambda>x. x / self_T st))
                 (map (\<lambda>i. dot (q ! i) (k ! i) # map (\<lambda>j. dot (q ! i) (col (queue st) j)) [0..<Kn])
                    [0..<N])"
    by blast
  have len: "length logits = N" unfolding lg by simp
  have rows: "\<forall>i<N. length (logits ! i) = 1 + Kn \<and> logits ! i ! 0 = dot (q ! i) (k ! i) / self_T st"
    unfolding lg by simp
  show ?thesis
    by (intro exI[of _ q] exI[of _ st1] exI[of _ k] exI[of _ st3] conjI qf kf lb lg len rows)
qed

theorem forward_logits_and_labels_witness:
  "forward pair_encode [1, 0] small_model im_q_2 im_k_2 =
     Inr ([[1 / 2, 0, 1 / 2], [- 1 / 2, 0, 1 / 2]], [0, 0], small_model_after) \<and>
   is_matrix 2 2 (queue small_model) \<and> length im_q_2 = 2 \<and> length im_k_2 = 2 \<and>
   is_randperm 2 [1, 0] \<and>
   query_features pair_encode small_model im_q_2 = Inr ([[0, 1], [0, 1]], small_model) \<and>
   key_features pair_encode [1, 0] small_model im_k_2 = Inr ([[0, 1], [0, - 1]], small_model_keys) \<and>
   [[1 / 2, 0, 1 / 2], [- 1 / 2, 0, 1 / 2]] ! 1 ! 0 = dot [0, 1] [0, - 1] / self_T small_model"
proof -
  have Q: "is_matrix 2 2 (queue small_model)" by (simp add: small_model_def is_matrix_def)
  have nq: "length im_q_2 = 2" and nk: "length im_k_2 = 2" by (simp_all add: im_q_2_def im_k_2_def)
  have p: "is_randperm 2 [1, 0]" by (simp add: is_randperm_def upt_rec)
  have D: "(0::nat) < 2" by simp
  from forward_logits_and_labels[OF forward_small pair_encode_shape Q D nq nk p]
  show ?thesis
    using forward_small Q nq nk p query_features_small key_features_small
    by (simp add: dot_def small_model_def)
qed

text \<open>
  C1 as stated fails in its last part: with \<open>T = 2\<close> the returned logit of the first pair is
  \<open>1 / 2\<close>, while the similarity \<open>dot(q\<^sub>0, k\<^sub>0)\<close> of the pair is 1.
\<close>

theorem forward_positive_column_counterexample:
  "forward pair_encode [1, 0] small_model im_q_2 im_k_2 =
     Inr ([[1 / 2, 0, 1 / 2], [- 1 / 2, 0, 1 / 2]], [0, 0], small_model_after) \<and>
   query_features pair_encode small_model im_q_2 = Inr ([[0, 1], [0, 1]], small_model) \<and>
   key_features pair_encode [1, 0] small_model im_k_2 = Inr ([[0, 1], [0, - 1]], small_model_keys) \<and>
   dot ([[0, 1], [0, 1]] ! 0) ([[0, 1], [0, - 1]] ! 0) = 1 \<and>
   [[1 / 2, 0, 1 / 2], [- 1 / 2, 0, 1 / 2 :: real]] ! 0 ! 0 = 1 / 2 \<and>
   [[1 / 2, 0, 1 / 2], [- 1 / 2, 0, 1 / 2]] ! 0 ! 0 \<noteq> dot ([[0, 1], [0, 1]] ! 0) ([[0, 1], [0, - 1]] ! 0)"
  using forward_small query_features_small key_features_small by (simp add: dot_def)

text \<open>
  C2. When a forward call returns, the negative block of its logits is the product of the
  query features with the queue of the model as it was on entry, divided by \<open>T\<close>; the key
  features are enqueued afterwards, on a model that still holds that queue and cursor, and
  this gives the model after the call.
\<close>

theorem negatives_read_before_enqueue:
  assumes "forward encode idx_shuffle st im_q im_k = Inr (logits, labels, st')"
  shows "\<exists>q st1 k st3 l_neg.
      query_features encode st im_q = Inr (q, st1) \<and>
      key_features encode idx_shuffle st1 im_k = Inr (k, st3) \<and>
      einsum_nc_ck_nk q (queue st) = Inr l_neg \<and>
      map tl logits = map (map (\<lambda>x. x / self_T st)) l_neg \<and>
      queue st3 = queue st \<and> queue_ptr st3 = queue_ptr st \<and>
      dequeue_and_enqueue_single_gpu st3 k = Inr st'"
proof -
  from forward_Inr[OF assms] obtain q st1 k st3 where
    qf: "query_features encode st im_q = Inr (q, st1)"
    and kf: "key_features encode idx_shuffle st1 im_k = Inr (k, st3)"
    and cl: "compute_logits q k (queue st3) (self_T st3) = Inr (logits, labels)"
    and en: "dequeue_and_enqueue_single_gpu st3 k = Inr st'"
    by blast
  have Qeq: "queue st3 = queue st" and Teq: "self_T st3 = self_T st"
    and Peq: "queue_ptr st3 = queue_ptr st"
    using key_features_fields[OF kf] query_features_fields[OF qf] by simp_all
  from compute_logits_Inr[OF cl] obtain l_pos l_neg where
    ln: "einsum_nc_ck_nk q (queue st) = Inr l_neg"
    and ll: "length l_pos = length l_neg"
    and lg: "logits = map (map (\<lambda>x. x / self_T st)) (map2 (#) l_pos l_neg)"
    unfolding Qeq Teq by blast
  have tl: "map tl logits = map (map (\<lambda>x. x / self_T st)) l_neg"
    unfolding lg by (rule map_tl_cat[OF ll])
  show ?thesis
    by (intro exI[of _ q] exI[of _ st1] exI[of _ k] exI[of _ st3] exI[of _ l_neg] conjI
        qf kf ln tl Qeq Peq en)
qed

theorem negatives_read_before_enqueue_witness:
  "forward pair_encode [1, 0] small_model im_q_2 im_k_2 =
     Inr ([[1 / 2, 0, 1 / 2], [- 1 / 2, 0, 1 / 2]], [0, 0], small_model_after) \<and>
   einsum_nc_ck_nk [[0, 1], [0, 1]] (queue small_model) = Inr [[0, 1], [0, 1]] \<and>
   map tl [[1 / 2, 0, 1 / 2], [- 1 / 2, 0, 1 / 2 :: real]] = [[0, 1 / 2], [0, 1 / 2]] \<and>
   queue small_model_after = [[0, 0], [1, - 1]] \<and>
   einsum_nc_ck_nk [[0, 1], [0, 1]] (queue small_model_after) = Inr [[1, - 1], [1, - 1]] \<and>
   dequeue_and_enqueue_single_gpu small_model_keys [[0, 1], [0, - 1]] = Inr small_model_after"
  using negatives_read_before_enqueue[OF forward_small] forward_small enqueue_small
  by (simp add: small_model_after_def small_model_keys_def small_model_def einsum_nc_ck_nk_def
      broadcast_size_def nrows_def ncols_def expand_def dot_def col_def upt_rec numeral_2_eq_2)

section \<open>Unit norm of the queue columns\<close>

lemma sum_list_sq_nonneg: "0 \<le> sum_list (map (\<lambda>x. x\<^sup>2) (v::real list))"
  by (induction v) simp_all

lemma sum_list_sq_scale:
  "sum_list (map (\<lambda>x. x\<^sup>2) (map (\<lambda>x. x / c) v)) = sum_list (map (\<lambda>x. x\<^sup>2) (v::real list)) / c\<^sup>2"
  by (induction v) (simp_all add: power_divide add_divide_distrib)

lemma normalize_vec_unit:
  assumes "normalize_eps \<le> l2_norm v"
  shows "l2_norm (normalize_vec v) = 1"
proof -
  let ?n = "l2_norm v"
  have pos: "0 < ?n" using assms by (simp add: normalize_eps_def)
  have mx: "max ?n normalize_eps = ?n" using assms by simp
  have sq: "?n\<^sup>2 = sum_list (map (\<lambda>x. x\<^sup>2) v)"
    by (simp add: l2_norm_def sum_list_sq_nonneg)
  have "sum_list (map (\<lambda>x. x\<^sup>2) (normalize_vec v)) = sum_list (map (\<lambda>x. x\<^sup>2) v) / ?n\<^sup>2"
    unfolding normalize_vec_def mx by (rule sum_list_sq_scale)
  also have "\<dots> = 1" using pos unfolding sq[symmetric] by simp
  finally show ?thesis by (simp add: l2_norm_def)
qed

lemma col_nth_map: "col M j = map (\<lambda>d. M ! d ! j) [0..<length M]"
  by (rule nth_equalityI) (simp_all add: col_def)

lemma randn_is_matrix: "is_matrix d k (randn noise d k)"
  by (simp add: randn_def is_matrix_def list_all_iff)

lemma normalize_cols_is_matrix: "is_matrix r c M \<Longrightarrow> is_matrix r c (normalize_cols M)"
  by (auto simp: is_matrix_def normalize_cols_def list_all_iff)

lemma col_normalize_cols:
  assumes M: "is_matrix r c M" and j: "j < c"
  shows "col (normalize_cols M) j = normalize_vec (col M j)"
proof -
  have "row \<in> set M \<Longrightarrow> length row = c" for row using M by (simp add: is_matrix_def list_all_iff)
  then show ?thesis using j
    by (simp add: col_def normalize_cols_def normalize_vec_def)
qed

lemma MoCo_init_Inr:
  assumes "MoCo_init api gq gk noise D K mm T mlp bands = Inr st"
  shows "0 \<le> K" "self_K st = K" "self_m st = mm" "self_T st = T" "queue_ptr st = 0"
    "queue st = normalize_cols (randn noise D (nat K))"
  using assms
  by (auto simp: MoCo_init_def or_raise_Inr Let_def split: if_splits prod.splits)

lemma enqueue_Inr_fits:
  assumes run: "dequeue_and_enqueue_single_gpu st keys = Inr st'"
    and Q: "is_matrix D Kn (queue st)" and K: "self_K st = int Kn"
    and keys: "is_matrix B D keys" and D: "0 < D"
    and p0: "0 \<le> queue_ptr st" and p1: "queue_ptr st < int Kn"
  shows "0 < B \<and> B dvd Kn \<and> queue_ptr st + int B \<le> int Kn"
proof -
  have lk: "length keys = B" using keys by (simp add: is_matrix_length)
  have B: "0 < B" using enqueue_Inr_nonempty[OF run] lk by simp
  have md: "int Kn mod int B = 0"
    using run B by (auto simp: dequeue_and_enqueue_single_gpu_def Let_def nrows_def lk K split: if_splits)
  then have dv: "B dvd Kn" by (metis int_dvd_int_iff mod_0_imp_dvd)
  have T: "is_matrix D B (transpose_m keys)" using keys B by (rule transpose_m_is_matrix)
  have nc: "ncols (queue st) = Kn" using Q D by (rule ncols_is_matrix)
  let ?lo = "slice_index Kn (queue_ptr st)" and ?hi = "slice_index Kn (queue_ptr st + int B)"
  have ex: "expand_matrix D (?hi - ?lo) (transpose_m keys) \<noteq> None"
    using run B Q
    by (auto simp: dequeue_and_enqueue_single_gpu_def Let_def nrows_def lk K assign_columns_def nc
        is_matrix_length split: if_splits option.splits)
  have row0: "transpose_m keys ! 0 \<in> set (transpose_m keys)" "length (transpose_m keys ! 0) = B"
    using T D by (simp_all add: is_matrix_length is_matrix_nth)
  have "expand D (transpose_m keys) = transpose_m keys"
    using T by (simp add: expand_same is_matrix_length)
  then have "expand_vec (?hi - ?lo) (transpose_m keys ! 0) \<noteq> None"
    using ex row0(1) T
    by (auto simp: expand_matrix_def expand_vec_def is_matrix_length list_all_iff split: if_splits)
  then have "B = ?hi - ?lo \<or> B = 1" using row0(2) by (auto simp: expand_vec_def split: if_splits)
  then have "queue_ptr st + int B \<le> int Kn"
    using p0 p1 B by (auto simp: slice_index_def split: if_splits)
  then show ?thesis using B dv by simp
qed

lemma enqueue_keeps_unit_columns:
  assumes run: "dequeue_and_enqueue_single_gpu st keys = Inr st'"
    and Q: "is_matrix D Kn (queue st)" and K: "self_K st = int Kn"
    and keys: "is_matrix B D keys" and D: "0 < D"
    and p0: "0 \<le> queue_ptr st" and p1: "queue_ptr st < int Kn"
    and uq: "\<forall>j<Kn. l2_norm (col (queue st) j) = 1"
    and uk: "\<forall>i<B. l2_norm (keys ! i) = 1"
  shows "is_matrix D Kn (queue st') \<and> (\<forall>j<Kn. l2_norm (col (queue st') j) = 1)"
proof -
  from enqueue_Inr_fits[OF run Q K keys D p0 p1]
  have B: "0 < B" and dv: "B dvd Kn" and fit: "queue_ptr st + int B \<le> int Kn" by simp_all
  let ?p = "nat (queue_ptr st)"
  from enqueue_effect[OF Q K keys B D dv p0 fit] run obtain Q' where
    st': "queue st' = Q'" and m: "is_matrix D Kn Q'"
    and ent: "\<forall>d<D. \<forall>j<Kn. Q' ! d ! j =
       (if ?p \<le> j \<and> j < ?p + B then keys ! (j - ?p) ! d else queue st ! d ! j)"
    by auto
  have lQ: "length Q' = D" and lq: "length (queue st) = D"
    using m Q by (simp_all add: is_matrix_length)
  have "l2_norm (col Q' j) = 1" if j: "j < Kn" for j
  proof (cases "?p \<le> j \<and> j < ?p + B")
    case True
    then have i: "j - ?p < B" by linarith
    have "col Q' j = map (\<lambda>d. keys ! (j - ?p) ! d) [0..<D]"
      unfolding col_nth_map lQ using ent j True by simp
    also have "\<dots> = keys ! (j - ?p)"
      using is_matrix_nth[OF keys i] by (metis map_nth)
    finally show ?thesis using uk i by simp
  next
    case False
    have "col Q' j = map (\<lambda>d. queue st ! d ! j) [0..<D]"
      unfolding col_nth_map lQ using ent j False by auto
    also have "\<dots> = col (queue st) j" unfolding col_nth_map lq ..
    finally show ?thesis using uq j by simp
  qed
  then show ?thesis using m st' by simp
qed

lemma init_axis:
  "MoCo_init plain_api () () axis_noise 2 2 (1 / 2) 2 False ''all'' = Inr init_model"
  by (simp add: MoCo_init_def plain_api_def or_raise_simps conv1_channels_def init_model_def
      small_model_def randn_def axis_noise_def normalize_cols_def col_def l2_norm_def
      normalize_eps_def upt_rec numeral_2_eq_2)

lemma init_zero:
  "MoCo_init plain_api () () zero_noise 1 1 (1 / 2) 2 False ''all'' = Inr zero_model"
  by (simp add: MoCo_init_def plain_api_def or_raise_simps conv1_channels_def zero_model_def
      randn_def zero_noise_def normalize_cols_def col_def l2_norm_def normalize_eps_def)

text \<open>
  C10, as the code has it. After construction the queue has shape \<open>dim \<times> K\<close>, the cursor is 0,
  and every column whose draw has norm at least \<open>10\<^sup>-\<^sup>1\<^sup>2\<close> has norm 1. An enqueue call that
  returns, on a queue of unit columns and with key vectors of norm 1, leaves a queue of unit
  columns.
\<close>

theorem queue_columns_unit_norm:
  "(MoCo_init api gq gk noise D K mm T mlp bands = Inr st0 \<longrightarrow>
      is_matrix D (nat K) (queue st0) \<and> queue_ptr st0 = 0 \<and>
      (\<forall>j<nat K. normalize_eps \<le> l2_norm (col (randn noise D (nat K)) j) \<longrightarrow>
                  l2_norm (col (queue st0) j) = 1)) \<and>
   (dequeue_and_enqueue_single_gpu st keys = Inr st' \<and>
    is_matrix D Kn (queue st) \<and> self_K st = int Kn \<and> is_matrix B D keys \<and> 0 < D \<and>
    0 \<le> queue_ptr st \<and> queue_ptr st < int Kn \<and>
    (\<forall>j<Kn. l2_norm (col (queue st) j) = 1) \<and> (\<forall>i<B. l2_norm (keys ! i) = 1) \<longrightarrow>
      is_matrix D Kn (queue st') \<and> (\<forall>j<Kn. l2_norm (col (queue st') j) = 1))"
proof (intro conjI impI)
  assume run: "MoCo_init api gq gk noise D K mm T mlp bands = Inr st0"
  note q = MoCo_init_Inr(6)[OF run]
  show "is_matrix D (nat K) (queue st0)"
    unfolding q by (rule normalize_cols_is_matrix[OF randn_is_matrix])
  show "queue_ptr st0 = 0" using MoCo_init_Inr(5)[OF run] .
  show "\<forall>j<nat K. normalize_eps \<le> l2_norm (col (randn noise D (nat K)) j) \<longrightarrow>
                  l2_norm (col (queue st0) j) = 1"
    unfolding q using col_normalize_cols[OF randn_is_matrix] normalize_vec_unit by simp
next
  assume a: "dequeue_and_enqueue_single_gpu st keys = Inr st' \<and>
    is_matrix D Kn (queue st) \<and> self_K st = int Kn \<and> is_matrix B D keys \<and> 0 < D \<and>
    0 \<le> queue_ptr st \<and> queue_ptr st < int Kn \<and>
    (\<forall>j<Kn. l2_norm (col (queue st) j) = 1) \<and> (\<forall>i<B. l2_norm (keys ! i) = 1)"
  then have r: "is_matrix D Kn (queue st') \<and> (\<forall>j<Kn. l2_norm (col (queue st') j) = 1)"
    by (intro enqueue_keeps_unit_columns[of st keys st' D Kn B]) simp_all
  show "is_matrix D Kn (queue st')" using r by simp
  show "\<forall>j<Kn. l2_norm (col (queue st') j) = 1" using r by simp
qed

lemma enqueue_init:
  "dequeue_and_enqueue_single_gpu init_model [[0, 1]] =
     Inr (init_model\<lparr>queue := [[0, 0], [1, 1]], queue_ptr := 1\<rparr>)"
  by (simp add: init_model_def small_model_def enqueue_eval upt_rec)

theorem queue_columns_unit_norm_witness:
  "MoCo_init plain_api () () axis_noise 2 2 (1 / 2) 2 False ''all'' = Inr init_model \<and>
   normalize_eps \<le> l2_norm (col (randn axis_noise 2 2) 0) \<and>
   normalize_eps \<le> l2_norm (col (randn axis_noise 2 2) 1) \<and>
   l2_norm (col (queue init_model) 0) = 1 \<and> l2_norm (col (queue init_model) 1) = 1 \<and>
   dequeue_and_enqueue_single_gpu init_model [[0, 1]] =
     Inr (init_model\<lparr>queue := [[0, 0], [1, 1]], queue_ptr := 1\<rparr>) \<and>
   is_matrix 1 2 [[0, 1]] \<and> l2_norm ([[0, 1]] ! 0) = 1 \<and>
   l2_norm (col [[0, 0], [1, 1]] 0) = 1 \<and> l2_norm (col [[0, 0], [1, 1]] 1) = 1"
  using queue_columns_unit_norm[of plain_api "()" "()" axis_noise 2 2 "1 / 2" 2 False "''all''"
      init_model init_model "[[0, 1]]" "init_model\<lparr>queue := [[0, 0], [1, 1]], queue_ptr := 1\<rparr>" 2 1]
    init_axis enqueue_init
  by (simp add: init_model_def small_model_def randn_def axis_noise_def col_def l2_norm_def
      normalize_eps_def is_matrix_def upt_rec numeral_2_eq_2)

text \<open>
  C10 as stated fails for a draw that is zero: the column is divided by \<open>max(0, 10\<^sup>-\<^sup>1\<^sup>2)\<close> and
  stays zero.
\<close>

theorem queue_zero_draw_counterexample:
  "MoCo_init plain_api () () zero_noise 1 1 (1 / 2) 2 False ''all'' = Inr zero_model \<and>
   queue zero_model = [[0]] \<and> l2_norm (col (queue zero_model) 0) = 0 \<and>
   l2_norm (col (queue zero_model) 0) \<noteq> 1"
  using init_zero by (simp add: zero_model_def col_def l2_norm_def)

section \<open>Construction and the temperature\<close>

lemma map_sum_or_raise: "map_sum id g (or_raise r f) = or_raise r (\<lambda>v. map_sum id g (f v))"
  by (cases r) (simp_all add: or_raise_def)

lemma MoCo_init_temperature:
  "MoCo_init api gq gk noise D K mm T mlp bands =
     map_sum id (\<lambda>s. s\<lparr>self_T := T\<rparr>) (MoCo_init api gq gk noise D K mm 1 mlp bands)"
  by (auto simp: MoCo_init_def or_raise_def Let_def split: sum.splits prod.splits)

lemma query_features_temperature:
  "query_features encode (st\<lparr>self_T := t\<rparr>) im_q =
     map_sum id (\<lambda>(q, s). (q, s\<lparr>self_T := t\<rparr>)) (query_features encode st im_q)"
  by (auto simp: query_features_def or_raise_def split: sum.splits prod.splits)

lemma momentum_update_temperature:
  "momentum_update_key_encoder (st\<lparr>self_T := t\<rparr>) =
     map_sum id (\<lambda>s. s\<lparr>self_T := t\<rparr>) (momentum_update_key_encoder st)"
  by (simp add: momentum_update_key_encoder_def split: sum.splits)

lemma key_features_temperature:
  "key_features encode idx (st\<lparr>self_T := t\<rparr>) im_k =
     map_sum id (\<lambda>(k, s). (k, s\<lparr>self_T := t\<rparr>)) (key_features encode idx st im_k)"
  by (auto simp: key_features_def momentum_update_temperature or_raise_def
      split: sum.splits prod.splits)

lemma enqueue_temperature:
  "dequeue_and_enqueue_single_gpu (st\<lparr>self_T := t\<rparr>) keys =
     map_sum id (\<lambda>s. s\<lparr>self_T := t\<rparr>) (dequeue_and_enqueue_single_gpu st keys)"
  by (simp add: dequeue_and_enqueue_single_gpu_def Let_def split: option.splits)

lemma compute_logits_temperature:
  "compute_logits q k Q t =
     map_sum id (\<lambda>(l, lab). (map (map (\<lambda>x. x / t)) l, lab)) (compute_logits q k Q 1)"
  by (simp add: compute_logits_def map_sum_or_raise Let_def nrows_def)

lemma forward_temperature:
  "forward encode idx (st\<lparr>self_T := t\<rparr>) im_q im_k =
     map_sum id (\<lambda>(l, lab, s). (map (map (\<lambda>x. x / t)) l, lab, s\<lparr>self_T := t\<rparr>))
       (forward encode idx (st\<lparr>self_T := 1\<rparr>) im_q im_k)"
proof (cases "query_features encode st im_q")
  case (Inl e)
  then show ?thesis by (simp add: forward_def query_features_temperature or_raise_def)
next
  case (Inr p)
  obtain q st1 where p: "p = (q, st1)" by (cases p)
  note qf = Inr[unfolded p]
  show ?thesis
  proof (cases "key_features encode idx st1 im_k")
    case (Inl e)
    then show ?thesis
      using qf by (simp add: forward_def query_features_temperature key_features_temperature or_raise_def)
  next
    case (Inr p2)
    obtain k st3 where p2: "p2 = (k, st3)" by (cases p2)
    note kf = Inr[unfolded p2]
    show ?thesis
    proof (cases "compute_logits q k (queue st3) 1")
      case (Inl e)
      then show ?thesis
        using qf kf
        by (simp add: forward_def query_features_temperature key_features_temperature
            compute_logits_temperature[of _ _ _ t] or_raise_def)
    next
      case (Inr p3)
      obtain l lab where p3: "p3 = (l, lab)" by (cases p3)
      note cl = Inr[unfolded p3]
      show ?thesis
      proof (cases "dequeue_and_enqueue_single_gpu st3 k")
        case (Inl e)
        then show ?thesis
          using qf kf cl
          by (simp add: forward_def query_features_temperature key_features_temperature
              compute_logits_temperature[of _ _ _ t] enqueue_temperature or_raise_def)
      next
        case (Inr s)
        then show ?thesis
          using qf kf cl
          by (simp add: forward_def query_features_temperature key_features_temperature
              compute_logits_temperature[of _ _ _ t] enqueue_temperature or_raise_def)
      qed
    qed
  qed
qed

lemma isl_map_sum_id: "isl (map_sum id g r) = isl r"
  by (cases r) simp_all

lemma key_features_init:
  "key_features pair_encode [1, 0] init_model im_k_2 = Inr ([[0, 1], [0, - 1]], init_model)"
  by (simp add: key_features_def pair_encode_def im_k_2_def or_raise_simps normalize_rows_def
      init_model_def small_model_def momentum_update_key_encoder_def momentum_param_def
      batch_shuffle_single_gpu_def batch_unshuffle_single_gpu_def index_select_def
      argsort_10[simplified])

lemma query_features_init:
  "query_features pair_encode init_model im_q_2 = Inr ([[0, 1], [0, 1]], init_model)"
  by (simp add: query_features_def pair_encode_def im_q_2_def or_raise_simps normalize_rows_def
      init_model_def small_model_def)

lemma compute_logits_unscaled:
  "compute_logits [[0, 1], [0, 1]] [[0, 1], [0, - 1]] [[1, 0], [0, 1]] 1
     = Inr ([[1, 0, 1], [- 1, 0, 1]], [0, 0])"
  by (simp add: compute_logits_def einsum_nc_nc_n_def einsum_nc_ck_nk_def cat_pos_neg_def
      or_raise_simps broadcast_size_def nrows_def ncols_def expand_def dot_def col_def upt_rec
      numeral_2_eq_2)

lemma enqueue_init_2:
  "dequeue_and_enqueue_single_gpu init_model [[0, 1], [0, - 1]] = Inr init_model_after"
  by (simp add: init_model_after_def init_model_def small_model_def enqueue_eval upt_rec)

lemma forward_init_unscaled:
  "forward pair_encode [1, 0] (init_model\<lparr>self_T := 1\<rparr>) im_q_2 im_k_2
     = Inr ([[1, 0, 1], [- 1, 0, 1]], [0, 0], init_model_after\<lparr>self_T := 1\<rparr>)"
proof -
  have q: "queue init_model = [[1, 0], [0, 1]]" by (simp add: init_model_def small_model_def)
  show ?thesis
    by (simp add: forward_def query_features_temperature key_features_temperature
        enqueue_temperature query_features_init key_features_init[simplified] or_raise_simps q
        compute_logits_unscaled enqueue_init_2)
qed

text \<open>
  C8, as the code has it. The temperature is not checked anywhere. Construction with any \<open>T\<close>
  raises or returns as it does with \<open>T = 1\<close> and stores \<open>T\<close> as given. A forward call with any
  stored \<open>t\<close> raises exactly when it does with temperature 1; with \<open>t \<noteq> 0\<close>, negative values
  included, it returns the logits of temperature 1 divided by \<open>t\<close>. (For \<open>t = 0\<close> torch divides
  floating-point numbers by zero, which does not raise either; the quotients themselves are
  outside real arithmetic.)
\<close>

theorem temperature_is_not_checked:
  "MoCo_init api gq gk noise D K mm T mlp bands =
     map_sum id (\<lambda>s. s\<lparr>self_T := T\<rparr>) (MoCo_init api gq gk noise D K mm 1 mlp bands) \<and>
   isl (forward encode idx (st\<lparr>self_T := t\<rparr>) im_q im_k) =
     isl (forward encode idx (st\<lparr>self_T := 1\<rparr>) im_q im_k) \<and>
   (t \<noteq> 0 \<longrightarrow>
      forward encode idx (st\<lparr>self_T := t\<rparr>) im_q im_k =
        map_sum id (\<lambda>(l, lab, s). (map (map (\<lambda>x. x / t)) l, lab, s\<lparr>self_T := t\<rparr>))
          (forward encode idx (st\<lparr>self_T := 1\<rparr>) im_q im_k))"
proof (intro conjI impI)
  show "MoCo_init api gq gk noise D K mm T mlp bands =
     map_sum id (\<lambda>s. s\<lparr>self_T := T\<rparr>) (MoCo_init api gq gk noise D K mm 1 mlp bands)"
    by (rule MoCo_init_temperature)
  show "isl (forward encode idx (st\<lparr>self_T := t\<rparr>) im_q im_k) =
     isl (forward encode idx (st\<lparr>self_T := 1\<rparr>) im_q im_k)"
    by (subst forward_temperature) (rule isl_map_sum_id)
  show "forward encode idx (st\<lparr>self_T := t\<rparr>) im_q im_k =
        map_sum id (\<lambda>(l, lab, s). (map (map (\<lambda>x. x / t)) l, lab, s\<lparr>self_T := t\<rparr>))
          (forward encode idx (st\<lparr>self_T := 1\<rparr>) im_q im_k)"
    by (rule forward_temperature)
qed

lemma init_unit_temperature:
  "MoCo_init plain_api () () axis_noise 2 2 (1 / 2) 1 False ''all'' = Inr (init_model\<lparr>self_T := 1\<rparr>)"
  by (simp add: MoCo_init_def plain_api_def or_raise_simps conv1_channels_def init_model_def
      small_model_def randn_def axis_noise_def normalize_cols_def col_def l2_norm_def
      normalize_eps_def upt_rec numeral_2_eq_2)

theorem temperature_is_not_checked_witness:
  "(- 2 :: real) \<noteq> 0 \<and>
   MoCo_init plain_api () () axis_noise 2 2 (1 / 2) (- 2) False ''all'' =
     Inr (init_model\<lparr>self_T := - 2\<rparr>) \<and>
   \<not> isl (forward pair_encode [1, 0] (init_model\<lparr>self_T := - 2\<rparr>) im_q_2 im_k_2) \<and>
   forward pair_encode [1, 0] (init_model\<lparr>self_T := - 2\<rparr>) im_q_2 im_k_2 =
     Inr ([[- 1 / 2, 0, - 1 / 2], [1 / 2, 0, - 1 / 2]], [0, 0], init_model_after\<lparr>self_T := - 2\<rparr>)"
  using temperature_is_not_checked[where api = plain_api and gq = "()" and gk = "()"
      and noise = axis_noise and D = 2 and K = 2 and mm = "1 / 2" and T = "- 2" and mlp = False
      and bands = "''all''" and encode = pair_encode and idx = "[1, 0]" and st = init_model
      and t = "- 2" and im_q = im_q_2 and im_k = im_k_2]
    init_unit_temperature forward_init_unscaled
  by (simp add: init_model_after_def init_model_def small_model_def)

text \<open>
  C8 as stated fails: with \<open>T = - 2\<close> (and with \<open>T = 0\<close>) construction returns a model, and the
  first forward call with \<open>T = - 2\<close> returns logits.
\<close>

theorem nonpositive_temperature_counterexample:
  "(- 2 :: real) \<le> 0 \<and>
   MoCo_init plain_api () () axis_noise 2 2 (1 / 2) (- 2) False ''all'' =
     Inr (init_model\<lparr>self_T := - 2\<rparr>) \<and>
   MoCo_init plain_api () () axis_noise 2 2 (1 / 2) 0 False ''all'' =
     Inr (init_model\<lparr>self_T := 0\<rparr>) \<and>
   forward pair_encode [1, 0] (init_model\<lparr>self_T := - 2\<rparr>) im_q_2 im_k_2 =
     Inr ([[- 1 / 2, 0, - 1 / 2], [1 / 2, 0, - 1 / 2]], [0, 0], init_model_after\<lparr>self_T := - 2\<rparr>)"
  using MoCo_init_temperature[of plain_api "()" "()" axis_noise 2 2 "1 / 2" "- 2" False "''all''"]
    MoCo_init_temperature[of plain_api "()" "()" axis_noise 2 2 "1 / 2" 0 False "''all''"]
    forward_temperature[where encode = pair_encode and idx = "[1, 0]" and st = init_model
      and t = "- 2" and im_q = im_q_2 and im_k = im_k_2]
    init_unit_temperature forward_init_unscaled
  by (simp add: init_model_after_def init_model_def small_model_def)

section \<open>The split factor of the normalization layers\<close>

lemma num_splits_norm_layer: "num_splits (norm_layer nf kw) = keyword 16 (kw_num_splits kw)"
  by (simp add: norm_layer_def SplitBatchNorm_init_def Let_def)

lemma MoCo_init_encoders:
  assumes run: "MoCo_init api gq gk noise D K mm T mlp bands = Inr st"
  shows "\<exists>eq0 ek0 eq1 ek1 eq2 ek2 pk.
      base_encoder api gq D norm_layer = Inr eq0 \<and>
      base_encoder api gk D norm_layer = Inr ek0 \<and>
      eq1 = (case conv1_channels bands of None \<Rightarrow> eq0 | Some c \<Rightarrow> set_conv1 api gq c eq0) \<and>
      ek1 = (case conv1_channels bands of None \<Rightarrow> ek0 | Some c \<Rightarrow> set_conv1 api gk c ek0) \<and>
      (if mlp then \<exists>d. wrap_fc api gq d eq1 = Inr eq2 \<and> wrap_fc api gk d ek1 = Inr ek2
       else eq2 = eq1 \<and> ek2 = ek1) \<and>
      encoder_q st = eq2 \<and> encoder_k st = ek2\<lparr>parameters := pk\<rparr>"
proof -
  from run obtain eq0 where a: "base_encoder api gq D norm_layer = Inr eq0"
    by (auto simp: MoCo_init_def or_raise_Inr)
  from run a obtain ek0 where b: "base_encoder api gk D norm_layer = Inr ek0"
    by (auto simp: MoCo_init_def or_raise_Inr)
  define eq1 where "eq1 = (case conv1_channels bands of None \<Rightarrow> eq0 | Some c \<Rightarrow> set_conv1 api gq c eq0)"
  define ek1 where "ek1 = (case conv1_channels bands of None \<Rightarrow> ek0 | Some c \<Rightarrow> set_conv1 api gk c ek0)"
  from run a b obtain eq2 ek2 pk where
    c: "(if mlp
         then or_raise (fc_in_features api eq1) (\<lambda>dim_mlp.
              or_raise (wrap_fc api gq dim_mlp eq1) (\<lambda>eq2.
              or_raise (wrap_fc api gk dim_mlp ek1) (\<lambda>ek2. Inr (eq2, ek2))))
         else Inr (eq1, ek1)) = Inr (eq2, ek2)"
    and q: "encoder_q st = eq2" and k: "encoder_k st = ek2\<lparr>parameters := pk\<rparr>"
    unfolding eq1_def ek1_def
    by (auto simp: MoCo_init_def or_raise_simps or_raise_Inr Let_def split: if_splits)
  have "if mlp then \<exists>d. wrap_fc api gq d eq1 = Inr eq2 \<and> wrap_fc api gk d ek1 = Inr ek2
        else eq2 = eq1 \<and> ek2 = ek1"
    using c by (auto simp: or_raise_Inr split: if_splits)
  then show ?thesis using a b q k eq1_def ek1_def by blast
qed

text \<open>
  C9, as the code has it. Let the factory build the normalization layers of an encoder by
  calling the constructor it is given, without the keyword \<^verbatim>\<open>num_splits\<close>, and let the new first
  convolution and the wrapped head add no normalization layer. Then, whenever construction
  returns, in every configuration (\<open>dim\<close>, \<open>K\<close>, \<open>m\<close>, \<open>T\<close>, \<open>mlp\<close>, \<open>bands\<close>), every normalization layer of
  the query encoder and of the key encoder has 16 splits. The function \<open>norm_layers\<close> reads the
  normalization layers off the external backbone.
\<close>

theorem split_factor_is_16:
  assumes run: "MoCo_init api gq gk noise D K mm T mlp bands = Inr st"
    and fac: "\<forall>g d nl e. base_encoder api g d nl = Inr e \<longrightarrow>
                (\<forall>l \<in> set (norm_layers (backbone e)).
                   \<exists>c kw. kw_num_splits kw = None \<and> l = nl c kw)"
    and conv: "\<forall>g c e. set (norm_layers (backbone (set_conv1 api g c e)))
                 \<subseteq> set (norm_layers (backbone e))"
    and fc: "\<forall>g d e e'. wrap_fc api g d e = Inr e' \<longrightarrow>
               set (norm_layers (backbone e')) \<subseteq> set (norm_layers (backbone e))"
  shows "(\<forall>l \<in> set (norm_layers (backbone (encoder_q st))). num_splits l = 16) \<and>
         (\<forall>l \<in> set (norm_layers (backbone (encoder_k st))). num_splits l = 16)"
proof -
  from MoCo_init_encoders[OF run] obtain eq0 ek0 eq1 ek1 eq2 ek2 pk where
    a: "base_encoder api gq D norm_layer = Inr eq0"
    and b: "base_encoder api gk D norm_layer = Inr ek0"
    and q1: "eq1 = (case conv1_channels bands of None \<Rightarrow> eq0 | Some c \<Rightarrow> set_conv1 api gq c eq0)"
    and k1: "ek1 = (case conv1_channels bands of None \<Rightarrow> ek0 | Some c \<Rightarrow> set_conv1 api gk c ek0)"
    and m: "if mlp then \<exists>d. wrap_fc api gq d eq1 = Inr eq2 \<and> wrap_fc api gk d ek1 = Inr ek2
            else eq2 = eq1 \<and> ek2 = ek1"
    and q: "encoder_q st = eq2" and k: "encoder_k st = ek2\<lparr>parameters := pk\<rparr>"
    by blast
  have built: "num_splits l = 16"
    if "base_encoder api g D norm_layer = Inr e" "l \<in> set (norm_layers (backbone e))" for g e l
  proof -
    from fac that obtain c kw where "kw_num_splits kw = None" "l = norm_layer c kw" by blast
    then show ?thesis by (simp add: num_splits_norm_layer keyword_def)
  qed
  have s1: "set (norm_layers (backbone eq1)) \<subseteq> set (norm_layers (backbone eq0))"
    and t1: "set (norm_layers (backbone ek1)) \<subseteq> set (norm_layers (backbone ek0))"
    unfolding q1 k1 using conv by (auto split: option.splits)
  have s2: "set (norm_layers (backbone eq2)) \<subseteq> set (norm_layers (backbone eq1))"
    and t2: "set (norm_layers (backbone ek2)) \<subseteq> set (norm_layers (backbone ek1))"
  proof -
    show "set (norm_layers (backbone eq2)) \<subseteq> set (norm_layers (backbone eq1))"
    proof (cases mlp)
      case True
      then obtain d where "wrap_fc api gq d eq1 = Inr eq2" using m by auto
      then show ?thesis using fc by blast
    next
      case False
      then show ?thesis using m by simp
    qed
    show "set (norm_layers (backbone ek2)) \<subseteq> set (norm_layers (backbone ek1))"
    proof (cases mlp)
      case True
      then obtain d where "wrap_fc api gk d ek1 = Inr ek2" using m by auto
      then show ?thesis using fc by blast
    next
      case False
      then show ?thesis using m by simp
    qed
  qed
  have "num_splits l = 16" if "l \<in> set (norm_layers (backbone (encoder_q st)))" for l
    using that s1 s2 built[OF a] unfolding q by blast
  moreover have "num_splits l = 16" if "l \<in> set (norm_layers (backbone (encoder_k st)))" for l
    using that t1 t2 built[OF b] unfolding k by auto
  ultimately show ?thesis by blast
qed

lemma layers_api_factory:
  "\<forall>g d nl e. base_encoder (layers_api no_kwargs) g d nl = Inr e \<longrightarrow>
     (\<forall>l \<in> set (backbone e). \<exists>c kw. kw_num_splits kw = None \<and> l = nl c kw)"
proof (intro allI impI ballI)
  fix g :: unit and d nl and e :: "SplitBatchNorm list encoder" and l
  assume "base_encoder (layers_api no_kwargs) g d nl = Inr e" and "l \<in> set (backbone e)"
  then have "l = nl 64 no_kwargs \<or> l = nl 128 no_kwargs" by (auto simp: layers_api_def)
  moreover have "kw_num_splits no_kwargs = None" by (simp add: no_kwargs_def)
  ultimately show "\<exists>c kw. kw_num_splits kw = None \<and> l = nl c kw" by blast
qed

lemma layers_api_conv1:
  "\<forall>g c e. set (backbone (set_conv1 (layers_api kw) g c e)) \<subseteq> set (backbone e)"
  by (simp add: layers_api_def)

lemma layers_api_fc:
  "\<forall>g d e e'. wrap_fc (layers_api kw) g d e = Inr e' \<longrightarrow> set (backbone e') \<subseteq> set (backbone e)"
  by (auto simp: layers_api_def)

lemma init_layers:
  "MoCo_init (layers_api kw) () () axis_noise 2 2 (1 / 2) 2 True ''B13'' =
     Inr (probe_model\<lparr>
       encoder_q := (encoder_q probe_model)\<lparr>backbone := [norm_layer 64 kw, norm_layer 128 kw]\<rparr>,
       encoder_k := (encoder_k probe_model)\<lparr>backbone := [norm_layer 64 kw, norm_layer 128 kw]\<rparr>\<rparr>)"
  by (simp add: MoCo_init_def layers_api_def or_raise_simps conv1_channels_def probe_model_def
      randn_def axis_noise_def normalize_cols_def col_def l2_norm_def normalize_eps_def upt_rec
      numeral_2_eq_2 Let_def)

lemma init_probe:
  "MoCo_init probe_api () () axis_noise 2 2 (1 / 2) 2 True ''B13'' = Inr probe_model"
  unfolding probe_api_def init_layers by (simp add: probe_model_def)

theorem split_factor_is_16_witness:
  "MoCo_init probe_api () () axis_noise 2 2 (1 / 2) 2 True ''B13'' = Inr probe_model \<and>
   map num_splits (backbone (encoder_q probe_model)) = [16, 16] \<and>
   map num_splits (backbone (encoder_k probe_model)) = [16, 16]"
proof -
  have fac: "\<forall>g d nl e. base_encoder probe_api g d nl = Inr e \<longrightarrow>
     (\<forall>l \<in> set (backbone e). \<exists>c kw. kw_num_splits kw = None \<and> l = nl c kw)"
    unfolding probe_api_def by (rule layers_api_factory)
  have conv: "\<forall>g c e. set (backbone (set_conv1 probe_api g c e)) \<subseteq> set (backbone e)"
    unfolding probe_api_def by (rule layers_api_conv1)
  have fc: "\<forall>g d e e'. wrap_fc probe_api g d e = Inr e' \<longrightarrow> set (backbone e') \<subseteq> set (backbone e)"
    unfolding probe_api_def by (rule layers_api_fc)
  from split_factor_is_16[where norm_layers = "\<lambda>b. b", OF init_probe fac conv fc]
  show ?thesis using init_probe by (simp add: probe_model_def)
qed

text \<open>
  C9 as stated fails for a factory that passes \<^verbatim>\<open>num_splits=4\<close> to the constructor it is
  given: the keyword of the call replaces the 16 fixed by \<^verbatim>\<open>partial\<close>, and the layers of both
  encoders have 4 splits.
\<close>

theorem factory_override_counterexample:
  "map_sum id (\<lambda>s. (map num_splits (backbone (encoder_q s)), map num_splits (backbone (encoder_k s))))
     (MoCo_init override_api () () axis_noise 2 2 (1 / 2) 2 True ''B13'') = Inr ([4, 4], [4, 4]) \<and>
   num_splits (norm_layer 64 (no_kwargs\<lparr>kw_num_splits := Some 4\<rparr>)) = 4 \<and>
   num_splits (norm_layer 64 (no_kwargs\<lparr>kw_num_splits := Some 4\<rparr>)) \<noteq> 16"
  unfolding override_api_def init_layers
  by (simp add: num_splits_norm_layer keyword_def no_kwargs_def)

section \<open>The normalization layer in inference mode\<close>

lemma batch_norm_eval_Inr:
  assumes "batch_norm x rm rv w b False mom ep = Inr (y, rm', rv')"
  shows "rm' = rm \<and> rv' = rv \<and> dims y = dims x \<and>
         (data x \<noteq> [] \<longrightarrow>
            (\<exists>rmean rvar. rm = Some rmean \<and> rv = Some rvar \<and>
               data y = map (\<lambda>i. (data x ! i - rmean ! chan_index (dims x) i)
                                  / sqrt (rvar ! chan_index (dims x) i + ep)
                                  * affine_at 1 w (chan_index (dims x) i)
                                  + affine_at 0 b (chan_index (dims x) i))
                          [0..<length (data x)]))"
  using assms
  by (auto simp: batch_norm_def Let_def split: list.splits if_splits option.splits)

lemma SplitBatchNorm_forward_eval:
  assumes ev: "\<not> training self" and tr: "track_running_stats self"
    and d: "dims input = [N, C, H, W]"
  shows "SplitBatchNorm_forward self input =
           map_sum id (\<lambda>(y, rm, rv). (y, self))
             (batch_norm input (running_mean self) (running_var self) (weight self) (bias self)
                False (momentum self) (eps self))"
proof (cases "batch_norm input (running_mean self) (running_var self) (weight self) (bias self)
                False (momentum self) (eps self)")
  case (Inl e)
  then show ?thesis using ev tr d by (simp add: SplitBatchNorm_forward_def or_raise_def)
next
  case (Inr p)
  obtain y rm rv where p: "p = (y, rm, rv)" by (cases p)
  from batch_norm_eval_Inr[OF Inr[unfolded p]]
  have "rm = running_mean self" "rv = running_var self" by simp_all
  then show ?thesis using ev tr d Inr p by (simp add: SplitBatchNorm_forward_def or_raise_def)
qed


lemmas bn_eval_defs =
  SplitBatchNorm_forward_def SplitBatchNorm_init_def no_kwargs_def keyword_def Let_def
  or_raise_simps repeat_attr_def view_infer_def view_def view_mean_dim0_def copy_into_def
  expand_vec_def expand_def batch_norm_def fits_channels_def affine_at_def chan_index_def
  chan_values_def mean_def var_biased_def var_unbiased_def two_samples_def

lemma forward_bn_eval:
  "SplitBatchNorm_forward bn_eval two_samples = Inr (\<lparr>dims = [2, 1, 1, 1], data = [0, 1]\<rparr>, bn_eval)"
  by (simp add: bn_eval_def bn_eval_defs upt_rec)

lemma forward_bn_untracked:
  "SplitBatchNorm_forward bn_untracked two_samples = Inl AttributeError"
  by (simp add: bn_untracked_def bn_eval_defs)

lemma forward_bn_switched_off:
  "SplitBatchNorm_forward bn_switched_off two_samples =
     Inr (\<lparr>dims = [2, 1, 1, 1], data = [- 1, 1]\<rparr>,
          bn_switched_off\<lparr>running_mean := Some [1 / 5], running_var := Some [11 / 10]\<rparr>)"
  by (simp add: bn_switched_off_def bn_eval_defs upt_rec power2_eq_square)

text \<open>
  C6, as the code has it. In inference mode with tracking of the running statistics on, the
  layer is \<^verbatim>\<open>batch_norm\<close> in evaluation mode on the unsplit input: it raises when that raises,
  and otherwise returns its output, each entry normalized with the running mean and variance
  of its channel, and leaves the layer, its running statistics included, as it was.
\<close>

theorem SplitBatchNorm_inference:
  assumes "\<not> training self" and "track_running_stats self" and "dims input = [N, C, H, W]"
  shows "SplitBatchNorm_forward self input =
           map_sum id (\<lambda>(y, rm, rv). (y, self))
             (batch_norm input (running_mean self) (running_var self) (weight self) (bias self)
                False (momentum self) (eps self)) \<and>
         (\<forall>y self'. SplitBatchNorm_forward self input = Inr (y, self') \<longrightarrow>
            self' = self \<and> dims y = dims input \<and>
            (data input \<noteq> [] \<longrightarrow>
               (\<exists>rmean rvar. running_mean self = Some rmean \<and> running_var self = Some rvar \<and>
                  data y = map (\<lambda>i. (data input ! i - rmean ! chan_index (dims input) i)
                                     / sqrt (rvar ! chan_index (dims input) i + eps self)
                                     * affine_at 1 (weight self) (chan_index (dims input) i)
                                     + affine_at 0 (bias self) (chan_index (dims input) i))
                             [0..<length (data input)])))"
proof (intro conjI allI impI)
  note eq = SplitBatchNorm_forward_eval[OF assms]
  show "SplitBatchNorm_forward self input =
           map_sum id (\<lambda>(y, rm, rv). (y, self))
             (batch_norm input (running_mean self) (running_var self) (weight self) (bias self)
                False (momentum self) (eps self))" by (rule eq)
  fix y self' assume run: "SplitBatchNorm_forward self input = Inr (y, self')"
  then obtain rm rv where
    bn: "batch_norm input (running_mean self) (running_var self) (weight self) (bias self)
           False (momentum self) (eps self) = Inr (y, rm, rv)" and s: "self' = self"
    unfolding eq
    by (cases "batch_norm input (running_mean self) (running_var self) (weight self) (bias self)
           False (momentum self) (eps self)") auto
  show "self' = self" by (rule s)
  show "dims y = dims input" using batch_norm_eval_Inr[OF bn] by simp
  assume "data input \<noteq> []"
  then show "\<exists>rmean rvar. running_mean self = Some rmean \<and> running_var self = Some rvar \<and>
                  data y = map (\<lambda>i. (data input ! i - rmean ! chan_index (dims input) i)
                                     / sqrt (rvar ! chan_index (dims input) i + eps self)
                                     * affine_at 1 (weight self) (chan_index (dims input) i)
                                     + affine_at 0 (bias self) (chan_index (dims input) i))
                             [0..<length (data input)]"
    using batch_norm_eval_Inr[OF bn] by simp
qed

theorem SplitBatchNorm_inference_witness:
  "\<not> training bn_eval \<and> track_running_stats bn_eval \<and> dims two_samples = [2, 1, 1, 1] \<and>
   num_splits bn_eval = 2 \<and> running_mean bn_eval = Some [1] \<and> running_var bn_eval = Some [4] \<and>
   data two_samples = [1, 3] \<and>
   SplitBatchNorm_forward bn_eval two_samples = Inr (\<lparr>dims = [2, 1, 1, 1], data = [0, 1]\<rparr>, bn_eval)"
  using SplitBatchNorm_inference[of bn_eval two_samples 2 1 1 1] forward_bn_eval
  by (simp add: bn_eval_def two_samples_def SplitBatchNorm_init_def no_kwargs_def keyword_def)

text \<open>
  C6 as stated fails when tracking is off: the guard sends every call of such a layer to the
  split branch, also in inference mode. A layer built without running statistics raises there
  (\<^verbatim>\<open>None\<close> has no \<^verbatim>\<open>repeat\<close>); a layer whose tracking was switched off later normalizes with
  the statistics of the batch and overwrites its running statistics.
\<close>

theorem tracking_disabled_counterexample:
  "\<not> training bn_untracked \<and> \<not> track_running_stats bn_untracked \<and>
   SplitBatchNorm_forward bn_untracked two_samples = Inl AttributeError \<and>
   \<not> training bn_switched_off \<and> \<not> track_running_stats bn_switched_off \<and>
   running_mean bn_switched_off = Some [0] \<and> running_var bn_switched_off = Some [1] \<and>
   SplitBatchNorm_forward bn_switched_off two_samples =
     Inr (\<lparr>dims = [2, 1, 1, 1], data = [- 1, 1]\<rparr>,
          bn_switched_off\<lparr>running_mean := Some [1 / 5], running_var := Some [11 / 10]\<rparr>)"
  using forward_bn_untracked forward_bn_switched_off
  by (simp add: bn_untracked_def bn_switched_off_def SplitBatchNorm_init_def no_kwargs_def
      keyword_def)

end
